theory Spec2Isabelle
  imports Main
begin

section \<open>Python values used by the TE5025 driver\<close>

text \<open>
  The driver (\<^verbatim>\<open>src/te5025/driver.py\<close>, class \<^verbatim>\<open>TE5025\<close>) validates its
  parameters with Python's builtin \<^verbatim>\<open>float\<close>, \<^verbatim>\<open>int\<close>, comparisons, \<^verbatim>\<open>in\<close>,
  \<^verbatim>\<open>str.upper\<close> and f-strings. Their behaviour is part of what the driver does, so the
  builtins are modelled first, executably and over integers only.

  A Python \<^verbatim>\<open>float\<close> is an IEEE 754 binary64 number. \<open>Fin s m e\<close> is the finite number
  \<open>(-1)\<^sup>s \<times> \<bar>m\<bar> \<times> 2\<^sup>e\<close> (so \<open>Fin True 0 e\<close> is the negative zero), \<open>Inf s\<close> the infinity
  of sign \<open>s\<close> (\<open>True\<close> is minus), \<open>NaN\<close> the not-a-number.
\<close>

datatype pyfloat = Fin bool int int | Inf bool | NaN

text \<open>Number of binary digits of a positive integer (Python's \<^verbatim>\<open>int.bit_length\<close>).\<close>

function bit_length :: "int \<Rightarrow> int" where
  "bit_length n = (if n \<le> 0 then 0 else 1 + bit_length (n div 2))"
  by pat_completeness auto
termination
  by (relation "measure nat") auto

declare bit_length.simps [simp del]

definition pow2 :: "int \<Rightarrow> int" where
  "pow2 k = 2 ^ nat k"

definition pow10 :: "int \<Rightarrow> int" where
  "pow10 k = 10 ^ nat k"

text \<open>\<open>\<lfloor>log\<^sub>2 (p / q)\<rfloor>\<close> for positive \<open>p\<close> and \<open>q\<close>.\<close>

definition floor_log2_ratio :: "int \<Rightarrow> int \<Rightarrow> int" where
  "floor_log2_ratio p q =
     (let k = bit_length p - bit_length q
      in if q * pow2 k \<le> p * pow2 (- k) then k else k - 1)"

text \<open>
  Rounding of the exact fraction \<open>p / q\<close> (with \<open>q > 0\<close>) to the nearest binary64 number,
  ties to the even significand: 53 significant bits, least exponent \<open>-1074\<close> (subnormal
  numbers), overflow to infinity from \<open>2\<^sup>1\<^sup>0\<^sup>2\<^sup>4\<close> on.
\<close>

definition round_double :: "bool \<Rightarrow> int \<Rightarrow> int \<Rightarrow> pyfloat" where
  "round_double s p q =
     (if p \<le> 0 then Fin s 0 0
      else
        let e = max (floor_log2_ratio p q - 52) (- 1074);
            num = p * pow2 (- e);
            den = q * pow2 e;
            m = num div den;
            r = num mod den;
            m' = (if den < 2 * r \<or> (2 * r = den \<and> odd m) then m + 1 else m)
        in if 971 < e \<or> (e = 971 \<and> 2 ^ 53 \<le> m') then Inf s else Fin s m' e)"

text \<open>The decimal number \<open>(-1)\<^sup>s \<times> d \<times> 10\<^sup>k\<close> as a float: a float literal of the source.\<close>

definition dec_float :: "bool \<Rightarrow> int \<Rightarrow> int \<Rightarrow> pyfloat" where
  "dec_float s d k = round_double s (d * pow10 k) (pow10 (- k))"

text \<open>An integer taken exactly, as Python does when it compares a float with an int.\<close>

definition exact_int :: "int \<Rightarrow> pyfloat" where
  "exact_int i = Fin (i < 0) \<bar>i\<bar> 0"

definition signed :: "bool \<Rightarrow> int \<Rightarrow> int" where
  "signed s m = (if s then - \<bar>m\<bar> else \<bar>m\<bar>)"

text \<open>Python's \<^verbatim>\<open>a <= b\<close> and \<^verbatim>\<open>a == b\<close> on floats; every comparison with a NaN is false.\<close>

fun float_le :: "pyfloat \<Rightarrow> pyfloat \<Rightarrow> bool" where
  "float_le (Fin s1 m1 e1) (Fin s2 m2 e2) =
     (signed s1 m1 * pow2 (e1 - min e1 e2) \<le> signed s2 m2 * pow2 (e2 - min e1 e2))"
| "float_le (Fin s1 m1 e1) (Inf s2) = (\<not> s2)"
| "float_le (Inf s1) (Fin s2 m2 e2) = s1"
| "float_le (Inf s1) (Inf s2) = (s1 \<or> \<not> s2)"
| "float_le NaN y = False"
| "float_le x NaN = False"

definition float_eq :: "pyfloat \<Rightarrow> pyfloat \<Rightarrow> bool" where
  "float_eq x y = (float_le x y \<and> float_le y x)"

definition float_lt :: "pyfloat \<Rightarrow> pyfloat \<Rightarrow> bool" where
  "float_lt x y = (float_le x y \<and> \<not> float_le y x)"

text \<open>Python's \<^verbatim>\<open>a * b\<close> on floats: the exact product, rounded.\<close>

fun float_mul :: "pyfloat \<Rightarrow> pyfloat \<Rightarrow> pyfloat" where
  "float_mul (Fin s1 m1 e1) (Fin s2 m2 e2) =
     round_double (s1 \<noteq> s2) (\<bar>m1 * m2\<bar> * pow2 (e1 + e2)) (pow2 (- (e1 + e2)))"
| "float_mul (Fin s1 m1 e1) (Inf s2) = (if m1 = 0 then NaN else Inf (s1 \<noteq> s2))"
| "float_mul (Inf s1) (Fin s2 m2 e2) = (if m2 = 0 then NaN else Inf (s1 \<noteq> s2))"
| "float_mul (Inf s1) (Inf s2) = Inf (s1 \<noteq> s2)"
| "float_mul NaN y = NaN"
| "float_mul x NaN = NaN"


subsection \<open>Strings: \<^verbatim>\<open>str.upper\<close>, \<^verbatim>\<open>str(int)\<close>, \<^verbatim>\<open>float(str)\<close>, \<^verbatim>\<open>int(str)\<close>\<close>

text \<open>
  Strings are ASCII here, one \<^typ>\<open>char\<close> per character: the commands of the driver and
  the replies of the instrument are ASCII text.
\<close>

definition is_digit :: "char \<Rightarrow> bool" where
  "is_digit c = (48 \<le> (of_char c :: int) \<and> (of_char c :: int) \<le> 57)"

definition digit_value :: "char \<Rightarrow> int" where
  "digit_value c = of_char c - 48"

definition digit_char :: "int \<Rightarrow> char" where
  "digit_char d = char_of (48 + d)"

definition is_space :: "char \<Rightarrow> bool" where
  "is_space c = (c \<in> set [CHR 0x20, CHR 0x09, CHR 0x0A, CHR 0x0B, CHR 0x0C, CHR 0x0D])"

definition upper_char :: "char \<Rightarrow> char" where
  "upper_char c =
     (if 97 \<le> (of_char c :: int) \<and> (of_char c :: int) \<le> 122
      then char_of ((of_char c :: int) - 32) else c)"

definition lower_char :: "char \<Rightarrow> char" where
  "lower_char c =
     (if 65 \<le> (of_char c :: int) \<and> (of_char c :: int) \<le> 90
      then char_of ((of_char c :: int) + 32) else c)"

text \<open>\<^verbatim>\<open>s.upper()\<close> and \<^verbatim>\<open>s.strip()\<close>.\<close>

definition upper :: "string \<Rightarrow> string" where
  "upper s = map upper_char s"

definition strip :: "string \<Rightarrow> string" where
  "strip s = rev (dropWhile is_space (rev (dropWhile is_space s)))"

text \<open>The decimal digits of a non-negative integer, and \<^verbatim>\<open>str(i)\<close>.\<close>

function digits_of :: "int \<Rightarrow> string" where
  "digits_of n =
     (if n < 10 then [digit_char n] else digits_of (n div 10) @ [digit_char (n mod 10)])"
  by pat_completeness auto
termination
  by (relation "measure nat") auto

declare digits_of.simps [simp del]

definition str_int :: "int \<Rightarrow> string" where
  "str_int i = (if i < 0 then CHR ''-'' # digits_of (- i) else digits_of i)"

text \<open>
  A group of digits as \<^verbatim>\<open>float\<close> and \<^verbatim>\<open>int\<close> accept it in a string: not empty, and an
  underscore only between two digits.
\<close>

fun digit_group :: "string \<Rightarrow> bool" where
  "digit_group [] = False"
| "digit_group [c] = is_digit c"
| "digit_group (c # d # cs) =
     (is_digit c \<and> (if d = CHR ''_'' then digit_group cs else digit_group (d # cs)))"

definition digits_value :: "string \<Rightarrow> int" where
  "digits_value s = foldl (\<lambda>a c. 10 * a + digit_value c) 0 (filter is_digit s)"

definition split_sign :: "string \<Rightarrow> bool \<times> string" where
  "split_sign s =
     (case s of
        [] \<Rightarrow> (False, [])
      | c # r \<Rightarrow> if c = CHR ''-'' then (True, r) else if c = CHR ''+'' then (False, r)
                 else (False, s))"

text \<open>The part of a string before the first character satisfying \<open>P\<close>, and the part after it.\<close>

definition split_at :: "(char \<Rightarrow> bool) \<Rightarrow> string \<Rightarrow> string \<times> string option" where
  "split_at P s =
     (case dropWhile (\<lambda>c. \<not> P c) s of
        [] \<Rightarrow> (s, None)
      | c # r \<Rightarrow> (takeWhile (\<lambda>c. \<not> P c) s, Some r))"

text \<open>
  A decimal numeral \<^verbatim>\<open>digits [. digits] [e [sign] digits]\<close> with at least one digit before
  the exponent: the result \<open>(d, k)\<close> stands for \<open>d \<times> 10\<^sup>k\<close>.
\<close>

definition parse_decimal :: "string \<Rightarrow> (int \<times> int) option" where
  "parse_decimal s =
     (let (mant, ex) = split_at (\<lambda>c. c = CHR ''e'' \<or> c = CHR ''E'') s;
          (ip, fo) = split_at (\<lambda>c. c = CHR ''.'') mant;
          fp = (case fo of None \<Rightarrow> [] | Some f \<Rightarrow> f);
          (es, ed) = split_sign (case ex of None \<Rightarrow> [] | Some x \<Rightarrow> x)
      in if (ip = [] \<and> fp = []) \<or> (ip \<noteq> [] \<and> \<not> digit_group ip)
            \<or> (fp \<noteq> [] \<and> \<not> digit_group fp) \<or> (ex \<noteq> None \<and> \<not> digit_group ed)
         then None
         else Some (digits_value (ip @ fp),
                    (if ex = None then 0 else if es then - digits_value ed else digits_value ed)
                      - int (length (filter is_digit fp))))"

text \<open>\<^verbatim>\<open>float(s)\<close> for a string; \<open>None\<close> is the \<^verbatim>\<open>ValueError\<close>.\<close>

definition float_of_string :: "string \<Rightarrow> pyfloat option" where
  "float_of_string str =
     (let (s, body) = split_sign (strip str);
          low = map lower_char body
      in if low = ''inf'' \<or> low = ''infinity'' then Some (Inf s)
         else if low = ''nan'' then Some NaN
         else (case parse_decimal body of
                 None \<Rightarrow> None
               | Some (d, k) \<Rightarrow> Some (dec_float s d k)))"

text \<open>\<^verbatim>\<open>int(s)\<close> for a string, in base 10; \<open>None\<close> is the \<^verbatim>\<open>ValueError\<close>.\<close>

definition int_of_string :: "string \<Rightarrow> int option" where
  "int_of_string str =
     (let (s, body) = split_sign (strip str)
      in if digit_group body
         then Some (if s then - digits_value body else digits_value body)
         else None)"

subsection \<open>\<^verbatim>\<open>repr(float)\<close>: the shortest decimal that reads back as the same float\<close>

text \<open>\<open>\<lfloor>log\<^sub>1\<^sub>0 (p / q)\<rfloor>\<close> for positive \<open>p\<close> and \<open>q\<close>.\<close>

definition floor_log10_ratio :: "int \<Rightarrow> int \<Rightarrow> int" where
  "floor_log10_ratio p q =
     (let k = int (length (digits_of p)) - int (length (digits_of q))
      in if q * pow10 k \<le> p * pow10 (- k) then k else k - 1)"

text \<open>
  The decimal \<open>c \<times> 10\<^sup>t\<close> with \<open>n\<close> significant digits nearest to \<open>p / q\<close> that rounds to the
  float \<open>x\<close>, if there is one; \<open>d\<close> is \<open>\<lfloor>log\<^sub>1\<^sub>0 (p / q)\<rfloor>\<close>.
\<close>

definition decimal_candidate :: "pyfloat \<Rightarrow> int \<Rightarrow> int \<Rightarrow> int \<Rightarrow> int \<Rightarrow> (int \<times> int) option" where
  "decimal_candidate x p q d n =
     (let t = d - n + 1;
          a = p * pow10 (- t);
          b = q * pow10 t;
          lo = a div b;
          r = a mod b;
          lo_ok = float_eq (dec_float False lo t) x;
          hi_ok = float_eq (dec_float False (lo + 1) t) x;
          up = (b < 2 * r \<or> (2 * r = b \<and> odd lo))
      in if lo_ok \<and> hi_ok then Some (if up then lo + 1 else lo, t)
         else if lo_ok then Some (lo, t)
         else if hi_ok then Some (lo + 1, t)
         else None)"

text \<open>The search for the least number of digits, from \<open>n\<close> up to 17 (which always suffices).\<close>

fun shortest_decimal :: "nat \<Rightarrow> pyfloat \<Rightarrow> int \<Rightarrow> int \<Rightarrow> int \<Rightarrow> int \<Rightarrow> int \<times> int" where
  "shortest_decimal 0 x p q d n =
     (let t = d - n + 1; a = p * pow10 (- t); b = q * pow10 t
      in (if b \<le> 2 * (a mod b) then a div b + 1 else a div b, t))"
| "shortest_decimal (Suc fuel) x p q d n =
     (case decimal_candidate x p q d n of
        Some r \<Rightarrow> r
      | None \<Rightarrow> shortest_decimal fuel x p q d (n + 1))"

definition strip_zeros :: "string \<Rightarrow> string" where
  "strip_zeros s = rev (dropWhile (\<lambda>c. c = CHR ''0'') (rev s))"

text \<open>
  The layout of \<^verbatim>\<open>repr\<close>: the digits \<open>ds\<close> with the decimal point after \<open>decpt\<close> of them;
  exponent notation when \<open>decpt > 16\<close> or \<open>decpt < -3\<close>.
\<close>

definition format_digits :: "string \<Rightarrow> int \<Rightarrow> string" where
  "format_digits ds decpt =
     (if 16 < decpt \<or> decpt < - 3 then
        (let ex = decpt - 1;
             exd = digits_of \<bar>ex\<bar>
         in (case ds of
               [] \<Rightarrow> []
             | c # rest \<Rightarrow> c # (if rest = [] then [] else CHR ''.'' # rest))
            @ ''e'' @ (if ex < 0 then ''-'' else ''+'')
            @ (if length exd < 2 then CHR ''0'' # exd else exd))
      else if decpt \<le> 0 then ''0.'' @ replicate (nat (- decpt)) (CHR ''0'') @ ds
      else if decpt < int (length ds) then take (nat decpt) ds @ ''.'' @ drop (nat decpt) ds
      else ds @ replicate (nat (decpt - int (length ds))) (CHR ''0'') @ ''.0'')"

definition repr_layout :: "int \<times> int \<Rightarrow> string" where
  "repr_layout ct =
     format_digits (strip_zeros (digits_of (fst ct))) (snd ct + int (length (digits_of (fst ct))))"

definition repr_ratio :: "pyfloat \<Rightarrow> int \<Rightarrow> int \<Rightarrow> string" where
  "repr_ratio x p q = repr_layout (shortest_decimal 16 x p q (floor_log10_ratio p q) 1)"

fun float_repr :: "pyfloat \<Rightarrow> string" where
  "float_repr NaN = ''nan''"
| "float_repr (Inf s) = (if s then ''-inf'' else ''inf'')"
| "float_repr (Fin s m e) =
     (if s then ''-'' else []) @
     (if m = 0 then ''0.0''
      else repr_ratio (Fin False m e) (\<bar>m\<bar> * pow2 e) (pow2 (- e)))"

subsection \<open>Values, exceptions and the builtins on values\<close>

text \<open>
  The arguments the callers pass and the values the methods return: \<^verbatim>\<open>None\<close>, booleans,
  integers, floats and strings. An exception that a builtin raises is a value of \<open>exn\<close>.
\<close>

datatype pyval = PNone | PBool bool | PInt int | PFloat pyfloat | PStr string

datatype exn = TypeError | ValueError | OverflowError | AttributeError

type_synonym result = "exn + pyval"

text \<open>\<^verbatim>\<open>float(v)\<close>: an integer is rounded to the nearest float and overflows with an exception.\<close>

fun py_float :: "pyval \<Rightarrow> exn + pyfloat" where
  "py_float PNone = Inl TypeError"
| "py_float (PBool b) = Inr (exact_int (if b then 1 else 0))"
| "py_float (PInt i) =
     (case round_double (i < 0) \<bar>i\<bar> 1 of
        Inf s \<Rightarrow> Inl OverflowError
      | f \<Rightarrow> Inr f)"
| "py_float (PFloat f) = Inr f"
| "py_float (PStr s) =
     (case float_of_string s of None \<Rightarrow> Inl ValueError | Some f \<Rightarrow> Inr f)"

text \<open>\<^verbatim>\<open>int(v)\<close>: a float is truncated towards zero.\<close>

fun py_int :: "pyval \<Rightarrow> exn + int" where
  "py_int PNone = Inl TypeError"
| "py_int (PBool b) = Inr (if b then 1 else 0)"
| "py_int (PInt i) = Inr i"
| "py_int (PFloat (Fin s m e)) = Inr (signed s ((\<bar>m\<bar> * pow2 e) div pow2 (- e)))"
| "py_int (PFloat (Inf s)) = Inl OverflowError"
| "py_int (PFloat NaN) = Inl ValueError"
| "py_int (PStr s) =
     (case int_of_string s of None \<Rightarrow> Inl ValueError | Some i \<Rightarrow> Inr i)"

text \<open>The text an f-string puts for \<^verbatim>\<open>{v}\<close>.\<close>

fun py_str :: "pyval \<Rightarrow> string" where
  "py_str PNone = ''None''"
| "py_str (PBool b) = (if b then ''True'' else ''False'')"
| "py_str (PInt i) = str_int i"
| "py_str (PFloat f) = float_repr f"
| "py_str (PStr s) = s"

text \<open>\<^verbatim>\<open>v.upper()\<close>: only a string has the method.\<close>

fun py_upper :: "pyval \<Rightarrow> exn + string" where
  "py_upper (PStr s) = Inr (upper s)"
| "py_upper v = Inl AttributeError"

text \<open>The number a value is compared as; a string and \<^verbatim>\<open>None\<close> are not numbers.\<close>

fun number :: "pyval \<Rightarrow> pyfloat option" where
  "number (PBool b) = Some (exact_int (if b then 1 else 0))"
| "number (PInt i) = Some (exact_int i)"
| "number (PFloat f) = Some f"
| "number v = None"

text \<open>\<^verbatim>\<open>a == b\<close>, and \<^verbatim>\<open>x in [..]\<close> which compares with \<^verbatim>\<open>==\<close>.\<close>

fun py_eq :: "pyval \<Rightarrow> pyval \<Rightarrow> bool" where
  "py_eq (PStr s) (PStr t) = (s = t)"
| "py_eq (PStr s) b = False"
| "py_eq a (PStr t) = False"
| "py_eq PNone b = (b = PNone)"
| "py_eq a PNone = False"
| "py_eq a b =
     (case (number a, number b) of
        (Some x, Some y) \<Rightarrow> float_eq x y
      | _ \<Rightarrow> False)"

definition py_in :: "pyval \<Rightarrow> pyval list \<Rightarrow> bool" where
  "py_in x xs = list_ex (py_eq x) xs"

text \<open>
  \<^verbatim>\<open>v >= c\<close> and \<^verbatim>\<open>v <= c\<close> for a numeric constant \<open>c\<close>: comparing a string or \<^verbatim>\<open>None\<close> with
  a number raises \<^verbatim>\<open>TypeError\<close>.
\<close>

definition py_ge :: "pyval \<Rightarrow> pyfloat \<Rightarrow> exn + bool" where
  "py_ge v c = (case number v of None \<Rightarrow> Inl TypeError | Some x \<Rightarrow> Inr (float_le c x))"

definition py_le :: "pyval \<Rightarrow> pyfloat \<Rightarrow> exn + bool" where
  "py_le v c = (case number v of None \<Rightarrow> Inl TypeError | Some x \<Rightarrow> Inr (float_le x c))"

text \<open>Truth value of a value, and \<^verbatim>\<open>a and b\<close>, which is \<open>a\<close> when \<open>a\<close> is false and \<open>b\<close> otherwise.\<close>

fun truthy :: "pyval \<Rightarrow> bool" where
  "truthy PNone = False"
| "truthy (PBool b) = b"
| "truthy (PInt i) = (i \<noteq> 0)"
| "truthy (PFloat f) = (\<not> float_eq f (exact_int 0))"
| "truthy (PStr s) = (s \<noteq> [])"

definition py_and :: "pyval \<Rightarrow> pyval \<Rightarrow> pyval" where
  "py_and a b = (if truthy a then b else a)"

section \<open>The driver\<close>

subsection \<open>Transport\<close>

text \<open>
  The instrument sits behind the VISA resource \<^verbatim>\<open>self.__inst\<close>. What it answers is not
  decided by the driver, so it is a parameter: \<open>reply h q\<close> is the text it returns to the
  query \<open>q\<close> after the traffic \<open>h\<close> (\<open>None\<close> when \<^verbatim>\<open>query\<close> raises, for instance on a
  timeout), and \<open>accept h d\<close> tells whether \<^verbatim>\<open>write\<close> of \<open>d\<close> goes through (\<open>False\<close> when it
  raises). The traffic is the list of commands handed to the resource, oldest first.
\<close>

datatype event = Write string | Query string

record resource =
  reply :: "event list \<Rightarrow> string \<Rightarrow> string option"
  accept :: "event list \<Rightarrow> string \<Rightarrow> bool"

text \<open>
  The object: the flag \<^verbatim>\<open>__instrument_connected\<close>, the resource \<^verbatim>\<open>__inst\<close>, and with them
  the traffic so far, which is the state of the bus rather than a field of the class.
\<close>

record te5025 =
  instrument_connected :: bool
  inst :: resource
  traffic :: "event list"

text \<open>
  The constructor: \<^verbatim>\<open>open_resource\<close> gives the resource, or raises and leaves the flag
  \<open>False\<close>.
\<close>

definition init :: "resource option \<Rightarrow> te5025" where
  "init r =
     (case r of
        Some i \<Rightarrow> \<lparr>instrument_connected = True, inst = i, traffic = []\<rparr>
      | None \<Rightarrow> \<lparr>instrument_connected = False,
                  inst = \<lparr>reply = (\<lambda>h q. None), accept = (\<lambda>h d. False)\<rparr>, traffic = []\<rparr>)"

text \<open>
  \<^verbatim>\<open>__get_data\<close> and \<^verbatim>\<open>__write_data\<close> catch what the resource raises and return \<^verbatim>\<open>None\<close> and
  \<^verbatim>\<open>False\<close>; the messages they print and the delay after each transfer are left out.
  \<^verbatim>\<open>close_connection\<close> is taken with a resource whose \<^verbatim>\<open>close\<close> succeeds.
\<close>

definition get_data :: "te5025 \<Rightarrow> string \<Rightarrow> result \<times> te5025" where
  "get_data self query =
     (if instrument_connected self then
        (case reply (inst self) (traffic self) query of
           Some recv \<Rightarrow> (Inr (PStr recv), self\<lparr>traffic := traffic self @ [Query query]\<rparr>)
         | None \<Rightarrow> (Inr PNone, self\<lparr>traffic := traffic self @ [Query query]\<rparr>))
      else (Inr PNone, self))"

definition write_data :: "te5025 \<Rightarrow> string \<Rightarrow> result \<times> te5025" where
  "write_data self data =
     (if instrument_connected self then
        (Inr (PBool (accept (inst self) (traffic self) data)),
         self\<lparr>traffic := traffic self @ [Write data]\<rparr>)
      else (Inr (PBool False), self))"

definition close_connection :: "te5025 \<Rightarrow> result \<times> te5025" where
  "close_connection self =
     (if instrument_connected self then (Inr PNone, self\<lparr>instrument_connected := False\<rparr>)
      else (Inr PNone, self))"

text \<open>A \<^verbatim>\<open>try\<close> block whose bare \<^verbatim>\<open>except:\<close> returns \<^verbatim>\<open>False\<close>.\<close>

fun except_False :: "result \<times> te5025 \<Rightarrow> result \<times> te5025" where
  "except_False (Inl e, s) = (Inr (PBool False), s)"
| "except_False (Inr v, s) = (Inr v, s)"

text \<open>
  A call followed by the rest of the method: an exception of the call leaves the method at
  once, otherwise the rest runs on the returned value and the new state.
\<close>

fun on_return :: "result \<times> te5025 \<Rightarrow> (pyval \<Rightarrow> te5025 \<Rightarrow> result \<times> te5025) \<Rightarrow> result \<times> te5025" where
  "on_return (Inl e, s) f = (Inl e, s)"
| "on_return (Inr v, s) f = f v s"

subsection \<open>Housekeeping\<close>

definition get_info :: "te5025 \<Rightarrow> result \<times> te5025" where
  "get_info self = get_data self ''*IDN?''"

definition clear_error :: "te5025 \<Rightarrow> result \<times> te5025" where
  "clear_error self = write_data self ''*CLS''"

definition get_error :: "te5025 \<Rightarrow> result \<times> te5025" where
  "get_error self = get_data self ''SYST:ERR?''"

definition get_error_count :: "te5025 \<Rightarrow> result \<times> te5025" where
  "get_error_count self = get_data self ''SYST:ERR:COUN?''"

definition set_remote :: "te5025 \<Rightarrow> result \<times> te5025" where
  "set_remote self = write_data self ''SYST:REM''"

definition set_local :: "te5025 \<Rightarrow> result \<times> te5025" where
  "set_local self = write_data self ''SYST:LOC''"

definition get_internal_temperature :: "te5025 \<Rightarrow> result \<times> te5025" where
  "get_internal_temperature self =
     on_return (write_data self ''unit:temp c'') (\<lambda>_ s1. get_data s1 ''syst:mod:vs:temp?'')"

definition output_enable :: "te5025 \<Rightarrow> result \<times> te5025" where
  "output_enable self = write_data self ''OUTP ON''"

definition output_disable :: "te5025 \<Rightarrow> result \<times> te5025" where
  "output_disable self = write_data self ''OUTP OFF''"

definition get_output_status :: "te5025 \<Rightarrow> result \<times> te5025" where
  "get_output_status self = write_data self ''OUTP?''"

subsection \<open>Voltage and current\<close>

text \<open>The list that \<^verbatim>\<open>set_voltage_range\<close> tests its argument against.\<close>

definition voltage_ranges :: "pyval list" where
  "voltage_ranges =
     [PStr ''20mV'', PStr ''200mV'', PStr ''2V'', PStr ''20V'', PStr ''200V'', PStr ''1kV'',
      PFloat (dec_float False 2 (- 2)), PFloat (dec_float False 2 (- 1)),
      PInt 2, PInt 20, PInt 200, PInt 1000]"

definition set_voltage_range :: "te5025 \<Rightarrow> pyval \<Rightarrow> result \<times> te5025" where
  "set_voltage_range self range' =
     (if \<not> py_in range' voltage_ranges then (Inr (PBool False), self)
      else write_data self (''VOLT:RANG '' @ py_str range'))"

definition get_voltage_range :: "te5025 \<Rightarrow> result \<times> te5025" where
  "get_voltage_range self = get_data self ''VOLT:RANG?''"

definition get_voltage_amplitude :: "te5025 \<Rightarrow> result \<times> te5025" where
  "get_voltage_amplitude self = get_data self ''VOLT:AMPL?''"

definition set_voltage_amplitude :: "te5025 \<Rightarrow> pyval \<Rightarrow> result \<times> te5025" where
  "set_voltage_amplitude self amplitude =
     except_False
       (case py_float amplitude of
          Inl e \<Rightarrow> (Inl e, self)
        | Inr a \<Rightarrow>
            if float_le (exact_int (- 1050)) a \<and> float_le a (exact_int 1050) then
              on_return (get_voltage_range self) (\<lambda>r s1.
                case py_float r of
                  Inl e \<Rightarrow> (Inl e, s1)
                | Inr rng \<Rightarrow>
                    if float_le a (float_mul rng (dec_float False 11 (- 1)))
                    then write_data s1 (''VOLT:AMPL '' @ float_repr a)
                    else (Inr (PBool False), s1))
            else (Inr (PBool False), self))"

definition set_voltage_dc :: "te5025 \<Rightarrow> pyval \<Rightarrow> pyval \<Rightarrow> result \<times> te5025" where
  "set_voltage_dc self range' amplitude =
     on_return (write_data self ''FUNC DC'') (\<lambda>ret3 s1.
     on_return (set_voltage_range s1 range') (\<lambda>ret1 s2.
     on_return (set_voltage_amplitude s2 amplitude) (\<lambda>ret2 s3.
       (Inr (py_and (py_and ret1 ret2) ret3), s3))))"

text \<open>The list that \<^verbatim>\<open>set_current_range\<close> tests its argument against.\<close>

definition current_ranges :: "pyval list" where
  "current_ranges =
     [PStr ''200uA'', PStr ''2mA'', PStr ''20mA'', PStr ''200mA'', PStr ''2A'', PStr ''20A'',
      PFloat (dec_float False 2 (- 4)), PFloat (dec_float False 2 (- 3)),
      PFloat (dec_float False 2 (- 2)), PFloat (dec_float False 2 (- 1)),
      PInt 2, PInt 20]"

definition set_current_range :: "te5025 \<Rightarrow> pyval \<Rightarrow> result \<times> te5025" where
  "set_current_range self range' =
     (if \<not> py_in range' current_ranges then (Inr (PBool False), self)
      else write_data self (''CURR:RANG '' @ py_str range'))"

definition get_current_range :: "te5025 \<Rightarrow> result \<times> te5025" where
  "get_current_range self = get_data self ''CURR:RANG?''"

definition get_current_amplitude :: "te5025 \<Rightarrow> result \<times> te5025" where
  "get_current_amplitude self = get_data self ''CURR:AMPL?''"

definition set_current_amplitude :: "te5025 \<Rightarrow> pyval \<Rightarrow> result \<times> te5025" where
  "set_current_amplitude self amplitude =
     except_False
       (case py_float amplitude of
          Inl e \<Rightarrow> (Inl e, self)
        | Inr a \<Rightarrow>
            if float_le (exact_int (- 22)) a \<and> float_le a (exact_int 22) then
              on_return (get_current_range self) (\<lambda>r s1.
                case py_float r of
                  Inl e \<Rightarrow> (Inl e, s1)
                | Inr rng \<Rightarrow>
                    if float_le a (float_mul rng (dec_float False 11 (- 1)))
                    then write_data s1 (''CURR:AMPL '' @ float_repr a)
                    else (Inr (PBool False), s1))
            else (Inr (PBool False), self))"

definition set_current_dc :: "te5025 \<Rightarrow> pyval \<Rightarrow> pyval \<Rightarrow> result \<times> te5025" where
  "set_current_dc self range' amplitude =
     on_return (write_data self ''FUNC DC'') (\<lambda>ret3 s1.
     on_return (set_current_range s1 range') (\<lambda>ret1 s2.
     on_return (set_current_amplitude s2 amplitude) (\<lambda>ret2 s3.
       (Inr (py_and (py_and ret1 ret2) ret3), s3))))"

text \<open>
  \<^verbatim>\<open>set_acv_frequency\<close> has no \<^verbatim>\<open>else\<close>: a frequency outside \<open>(0, 20000]\<close> falls off the end of
  the method, which returns \<^verbatim>\<open>None\<close>.
\<close>

definition set_acv_frequency :: "te5025 \<Rightarrow> pyval \<Rightarrow> result \<times> te5025" where
  "set_acv_frequency self frequency =
     except_False
       (case py_int frequency of
          Inl e \<Rightarrow> (Inl e, self)
        | Inr f \<Rightarrow>
            if 0 < f \<and> f \<le> 20000 then write_data self (''FREQ '' @ str_int f)
            else (Inr PNone, self))"

definition get_acv_frequency :: "te5025 \<Rightarrow> result \<times> te5025" where
  "get_acv_frequency self = get_data self ''FREQ?''"

definition set_voltage_ac :: "te5025 \<Rightarrow> pyval \<Rightarrow> pyval \<Rightarrow> pyval \<Rightarrow> result \<times> te5025" where
  "set_voltage_ac self range' amplitude frequency =
     on_return (write_data self ''FUNC SIN'') (\<lambda>ret3 s1.
     on_return (set_acv_frequency s1 frequency) (\<lambda>ret4 s2.
     on_return (set_voltage_range s2 range') (\<lambda>ret1 s3.
     on_return (set_voltage_amplitude s3 amplitude) (\<lambda>ret2 s4.
       (Inr (py_and (py_and (py_and ret1 ret2) ret3) ret4), s4)))))"

definition set_current_ac :: "te5025 \<Rightarrow> pyval \<Rightarrow> pyval \<Rightarrow> pyval \<Rightarrow> result \<times> te5025" where
  "set_current_ac self range' amplitude frequency =
     on_return (write_data self ''FUNC SIN'') (\<lambda>ret3 s1.
     on_return (set_acv_frequency s1 frequency) (\<lambda>ret4 s2.
     on_return (set_current_range s2 range') (\<lambda>ret1 s3.
     on_return (set_current_amplitude s3 amplitude) (\<lambda>ret2 s4.
       (Inr (py_and (py_and (py_and ret1 ret2) ret3) ret4), s4)))))"

subsection \<open>Resistance, capacitance, inductance, conductance\<close>

definition fixed_resistances :: "pyval list" where
  "fixed_resistances =
     [PInt 0, PInt 1, PInt 10, PInt 100, PInt 1000,
      PFloat (dec_float False 1 4), PFloat (dec_float False 1 5), PFloat (dec_float False 1 6),
      PFloat (dec_float False 1 7), PFloat (dec_float False 1 8), PFloat (dec_float False 1 9),
      PStr ''0r'', PStr ''1r'', PStr ''10r'', PStr ''100r'', PStr ''1kr'', PStr ''10kr'',
      PStr ''100kr'', PStr ''1mr'', PStr ''10mr'', PStr ''100mr'', PStr ''1gr'']"

definition set_fixed_resistance :: "te5025 \<Rightarrow> pyval \<Rightarrow> result \<times> te5025" where
  "set_fixed_resistance self resistance =
     (if py_in resistance fixed_resistances then write_data self (''RES '' @ py_str resistance)
      else (Inr (PBool False), self))"

definition get_fixed_resistance :: "te5025 \<Rightarrow> result \<times> te5025" where
  "get_fixed_resistance self = get_data self ''RES?''"

definition set_arbitrary_resistance :: "te5025 \<Rightarrow> pyval \<Rightarrow> result \<times> te5025" where
  "set_arbitrary_resistance self resistance = write_data self (''SRES '' @ py_str resistance)"

definition get_arbitrary_resistance :: "te5025 \<Rightarrow> result \<times> te5025" where
  "get_arbitrary_resistance self = get_data self ''SRES?''"

definition capacitances :: "pyval list" where
  "capacitances =
     [PFloat (dec_float False 1 (- 9)), PFloat (dec_float False 1 (- 8)),
      PFloat (dec_float False 1 (- 7)), PFloat (dec_float False 1 (- 6)),
      PFloat (dec_float False 1 (- 5)), PFloat (dec_float False 1 (- 4)),
      PStr ''1nf'', PStr ''10nf'', PStr ''100nf'', PStr ''1uf'', PStr ''10uf'', PStr ''100uf'']"

definition set_capacitance :: "te5025 \<Rightarrow> pyval \<Rightarrow> result \<times> te5025" where
  "set_capacitance self capacitance =
     (if py_in capacitance capacitances then write_data self (''CAP '' @ py_str capacitance)
      else (Inr (PBool False), self))"

definition get_capacitance :: "te5025 \<Rightarrow> result \<times> te5025" where
  "get_capacitance self = get_data self ''CAP?''"

definition inductances :: "pyval list" where
  "inductances =
     [PFloat (dec_float False 1 (- 3)), PFloat (dec_float False 19 (- 4)),
      PFloat (dec_float False 5 (- 3)), PFloat (dec_float False 10 (- 3)),
      PFloat (dec_float False 19 (- 3)), PFloat (dec_float False 5 (- 2)),
      PFloat (dec_float False 1 (- 1)), PFloat (dec_float False 19 (- 2)),
      PFloat (dec_float False 5 (- 1)), PInt 1, PInt 10,
      PStr ''1mh'', PStr ''1.9mh'', PStr ''5mh'', PStr ''10mh'', PStr ''19mh'', PStr ''50mh'',
      PStr ''100mh'', PStr ''190mh'', PStr ''500mh'', PStr ''1h'', PStr ''10h'']"

definition set_inductance :: "te5025 \<Rightarrow> pyval \<Rightarrow> result \<times> te5025" where
  "set_inductance self inductance =
     (if py_in inductance inductances then write_data self (''IND '' @ py_str inductance)
      else (Inr (PBool False), self))"

definition get_inductance :: "te5025 \<Rightarrow> result \<times> te5025" where
  "get_inductance self = get_data self ''IND?''"

definition conductances :: "pyval list" where
  "conductances =
     [PFloat (dec_float False 1 (- 9)), PFloat (dec_float False 1 (- 8)),
      PFloat (dec_float False 1 (- 7)), PFloat (dec_float False 1 (- 6)),
      PFloat (dec_float False 1 (- 5)), PFloat (dec_float False 1 (- 4)),
      PFloat (dec_float False 1 (- 3)), PFloat (dec_float False 1 (- 2)),
      PFloat (dec_float False 1 (- 1)), PInt 1,
      PStr ''1ns'', PStr ''10ns'', PStr ''100ns'', PStr ''1us'', PStr ''10us'', PStr ''100us'',
      PStr ''1ms'', PStr ''10ms'', PStr ''100ms'', PStr ''1s'']"

definition set_conductance :: "te5025 \<Rightarrow> pyval \<Rightarrow> result \<times> te5025" where
  "set_conductance self conductance =
     (if py_in conductance conductances then write_data self (''COND '' @ py_str conductance)
      else (Inr (PBool False), self))"

definition get_conductance :: "te5025 \<Rightarrow> result \<times> te5025" where
  "get_conductance self = get_data self ''COND?''"

subsection \<open>RTD and thermocouple simulation\<close>

text \<open>
  One test \<^verbatim>\<open>unit.upper() == u and temperature >= lo and temperature <= hi\<close> of
  \<^verbatim>\<open>set_RTD_temperature\<close>: \<^verbatim>\<open>and\<close> stops at the first false operand, so the temperature is
  compared only when the unit matches.
\<close>

definition rtd_test :: "pyval \<Rightarrow> pyval \<Rightarrow> string \<Rightarrow> pyfloat \<Rightarrow> pyfloat \<Rightarrow> exn + bool" where
  "rtd_test unit temperature u lo hi =
     (case py_upper unit of
        Inl e \<Rightarrow> Inl e
      | Inr s \<Rightarrow>
          if s \<noteq> u then Inr False
          else (case py_ge temperature lo of
                  Inl e \<Rightarrow> Inl e
                | Inr b \<Rightarrow> if b then py_le temperature hi else Inr False))"

definition set_RTD_temperature :: "te5025 \<Rightarrow> pyval \<Rightarrow> pyval \<Rightarrow> result \<times> te5025" where
  "set_RTD_temperature self temperature unit =
     except_False
       (case rtd_test unit temperature ''C'' (exact_int (- 180)) (exact_int 850) of
          Inl e \<Rightarrow> (Inl e, self)
        | Inr c \<Rightarrow>
            if c then write_data self (''RTD '' @ py_str temperature @ ''C'')
            else
              (case rtd_test unit temperature ''K''
                      (dec_float False 9315 (- 2)) (dec_float False 112315 (- 2)) of
                 Inl e \<Rightarrow> (Inl e, self)
               | Inr k \<Rightarrow>
                   if k then write_data self (''RTD '' @ py_str temperature @ ''K'')
                   else
                     (case rtd_test unit temperature ''F'' (exact_int (- 292)) (exact_int 1562) of
                        Inl e \<Rightarrow> (Inl e, self)
                      | Inr f \<Rightarrow>
                          if f then write_data self (''RTD '' @ py_str temperature @ ''F'')
                          else (Inr (PBool False), self))))"

definition get_RTD_temperature :: "te5025 \<Rightarrow> result \<times> te5025" where
  "get_RTD_temperature self = get_data self ''RTD?''"

definition tc_types :: "pyval list" where
  "tc_types =
     [PStr ''B'', PStr ''E'', PStr ''J'', PStr ''K'', PStr ''N'', PStr ''R'', PStr ''S'',
      PStr ''T'']"

definition set_TC_type :: "te5025 \<Rightarrow> pyval \<Rightarrow> result \<times> te5025" where
  "set_TC_type self type =
     except_False
       (case py_upper type of
          Inl e \<Rightarrow> (Inl e, self)
        | Inr u \<Rightarrow>
            if py_in (PStr u) tc_types
            then write_data self (''ther:type '' @ py_str type)
            else (Inr (PBool False), self))"

definition get_TC_type :: "te5025 \<Rightarrow> result \<times> te5025" where
  "get_TC_type self = get_data self ''ther:type?''"

text \<open>The \<^verbatim>\<open>if\<close>/\<^verbatim>\<open>elif\<close> chain of \<^verbatim>\<open>set_TC_temperature\<close> on the type and the temperature.\<close>

definition tc_admits :: "string \<Rightarrow> pyfloat \<Rightarrow> bool" where
  "tc_admits type temperature =
     (if type = ''J'' \<and> float_le (exact_int (- 210)) temperature
           \<and> float_le temperature (exact_int 1200) then True
      else if type = ''K'' \<and> float_le (exact_int (- 200)) temperature
           \<and> float_le temperature (exact_int 1250) then True
      else if type = ''T'' \<and> float_le (exact_int (- 200)) temperature
           \<and> float_le temperature (exact_int 400) then True
      else if type = ''R'' \<and> float_le (exact_int (- 50)) temperature
           \<and> float_le temperature (exact_int 1750) then True
      else if type = ''S'' \<and> float_le (exact_int (- 50)) temperature
           \<and> float_le temperature (exact_int 1750) then True
      else if type = ''B'' \<and> float_le (exact_int 100) temperature
           \<and> float_le temperature (exact_int 1800) then True
      else if type = ''N'' \<and> float_le (exact_int (- 200)) temperature
           \<and> float_le temperature (exact_int 1300) then True
      else if type = ''E'' \<and> float_le (exact_int (- 200)) temperature
           \<and> float_le temperature (exact_int 1000) then True
      else False)"

definition set_TC_temperature :: "te5025 \<Rightarrow> pyval \<Rightarrow> result \<times> te5025" where
  "set_TC_temperature self temperature =
     except_False
       (case py_float temperature of
          Inl e \<Rightarrow> (Inl e, self)
        | Inr t \<Rightarrow>
            on_return (get_TC_type self) (\<lambda>r s1.
              case py_upper r of
                Inl e \<Rightarrow> (Inl e, s1)
              | Inr type \<Rightarrow>
                  if tc_admits type t then write_data s1 (''ther '' @ float_repr t)
                  else (Inr (PBool False), s1)))"

definition get_TC_temperature :: "te5025 \<Rightarrow> result \<times> te5025" where
  "get_TC_temperature self = get_data self ''ther?''"

definition set_TC :: "te5025 \<Rightarrow> pyval \<Rightarrow> pyval \<Rightarrow> result \<times> te5025" where
  "set_TC self temperature type =
     on_return (set_TC_type self type) (\<lambda>ret1 s1.
     on_return (set_TC_temperature s1 temperature) (\<lambda>ret2 s2.
       (Inr (py_and ret1 ret2), s2)))"

subsection \<open>Oscilloscope timing\<close>

text \<open>
  Both setters call \<^verbatim>\<open>__write_data\<close> without returning its result and have no \<^verbatim>\<open>else\<close>: they
  return \<^verbatim>\<open>None\<close> unless the conversion raises.
\<close>

definition oscilloscope_frequencies :: "pyval list" where
  "oscilloscope_frequencies =
     [PFloat (dec_float False 1 (- 1)), PFloat (dec_float False 2 (- 1)),
      PFloat (dec_float False 5 (- 1)), PInt 1, PInt 2, PInt 5, PInt 10, PInt 20, PInt 50,
      PInt 100, PInt 200, PInt 500,
      PFloat (dec_float False 1 3), PFloat (dec_float False 2 3), PFloat (dec_float False 5 3),
      PFloat (dec_float False 1 4), PFloat (dec_float False 2 4), PFloat (dec_float False 5 4),
      PFloat (dec_float False 1 5), PFloat (dec_float False 2 5), PFloat (dec_float False 5 5),
      PFloat (dec_float False 1 6), PFloat (dec_float False 2 6), PFloat (dec_float False 5 6),
      PFloat (dec_float False 1 7), PFloat (dec_float False 2 7), PFloat (dec_float False 5 7),
      PFloat (dec_float False 1 8)]"

definition set_oscilloscope_frequency :: "te5025 \<Rightarrow> pyval \<Rightarrow> result \<times> te5025" where
  "set_oscilloscope_frequency self frequency =
     except_False
       (case py_float frequency of
          Inl e \<Rightarrow> (Inl e, self)
        | Inr f \<Rightarrow>
            if py_in (PFloat f) oscilloscope_frequencies
            then on_return (write_data self (''puls:sfr '' @ float_repr f))
                   (\<lambda>_ s1. (Inr PNone, s1))
            else (Inr PNone, self))"

definition get_oscilloscope_frequency :: "te5025 \<Rightarrow> result \<times> te5025" where
  "get_oscilloscope_frequency self = get_data self ''puls:sfr?''"

definition oscilloscope_periods :: "pyval list" where
  "oscilloscope_periods =
     [PFloat (dec_float False 1 (- 8)), PFloat (dec_float False 2 (- 8)),
      PFloat (dec_float False 5 (- 8)), PFloat (dec_float False 1 (- 7)),
      PFloat (dec_float False 2 (- 7)), PFloat (dec_float False 5 (- 7)),
      PFloat (dec_float False 1 (- 6)), PFloat (dec_float False 2 (- 6)),
      PFloat (dec_float False 5 (- 6)), PFloat (dec_float False 1 (- 5)),
      PFloat (dec_float False 2 (- 5)), PFloat (dec_float False 5 (- 5)),
      PFloat (dec_float False 1 (- 4)), PFloat (dec_float False 2 (- 4)),
      PFloat (dec_float False 5 (- 4)), PFloat (dec_float False 1 (- 3)),
      PFloat (dec_float False 2 (- 3)), PFloat (dec_float False 5 (- 3)),
      PFloat (dec_float False 1 (- 2)), PFloat (dec_float False 2 (- 2)),
      PFloat (dec_float False 5 (- 2)), PFloat (dec_float False 1 (- 1)),
      PFloat (dec_float False 2 (- 1)), PFloat (dec_float False 5 (- 1)),
      PInt 1, PInt 2, PInt 5, PInt 10]"

definition set_oscilloscope_period :: "te5025 \<Rightarrow> pyval \<Rightarrow> result \<times> te5025" where
  "set_oscilloscope_period self period =
     except_False
       (case py_float period of
          Inl e \<Rightarrow> (Inl e, self)
        | Inr p \<Rightarrow>
            if py_in (PFloat p) oscilloscope_periods
            then on_return (write_data self (''puls:sper '' @ float_repr p))
                   (\<lambda>_ s1. (Inr PNone, s1))
            else (Inr PNone, self))"

definition get_oscilloscope_period :: "te5025 \<Rightarrow> result \<times> te5025" where
  "get_oscilloscope_period self = get_data self ''puls:sper?''"

subsection \<open>AC and DC power\<close>

text \<open>
  The two \<^verbatim>\<open>if\<close>/\<^verbatim>\<open>elif\<close> chains that \<^verbatim>\<open>set_ac_power\<close> and \<^verbatim>\<open>set_dc_power\<close> both contain: they
  compute \<^verbatim>\<open>volt_rang\<close> and \<^verbatim>\<open>current_rang\<close>, and their \<^verbatim>\<open>else: return False\<close> is \<open>None\<close>
  here. The ranges \<^verbatim>\<open>0.02\<close> and \<^verbatim>\<open>0.2\<close> are floats, the others integers.
\<close>

definition volt_rang :: "pyfloat \<Rightarrow> pyval option" where
  "volt_rang voltage =
     (if float_le voltage (dec_float False 22 (- 3)) then Some (PFloat (dec_float False 2 (- 2)))
      else if float_le voltage (dec_float False 22 (- 2)) then Some (PFloat (dec_float False 2 (- 1)))
      else if float_le voltage (dec_float False 22 (- 1)) then Some (PInt 2)
      else if float_le voltage (exact_int 22) then Some (PInt 20)
      else if float_le voltage (exact_int 220) then Some (PInt 200)
      else if float_le voltage (exact_int 1050) then Some (PInt 1000)
      else None)"

definition current_rang :: "pyfloat \<Rightarrow> pyval option" where
  "current_rang current =
     (if float_le current (dec_float False 22 (- 1)) then Some (PInt 2)
      else if float_le current (exact_int 22) then Some (PInt 20)
      else None)"

definition set_ac_power :: "te5025 \<Rightarrow> pyval \<Rightarrow> pyval \<Rightarrow> pyval \<Rightarrow> pyval \<Rightarrow> result \<times> te5025" where
  "set_ac_power self voltage current frequency phase =
     on_return (output_disable self) (\<lambda>_ s0.
       except_False
         (case py_float voltage of Inl e \<Rightarrow> (Inl e, s0) | Inr v \<Rightarrow>
          case py_float current of Inl e \<Rightarrow> (Inl e, s0) | Inr c \<Rightarrow>
          case py_float frequency of Inl e \<Rightarrow> (Inl e, s0) | Inr f \<Rightarrow>
          case py_float phase of Inl e \<Rightarrow> (Inl e, s0) | Inr ph \<Rightarrow>
          case volt_rang v of None \<Rightarrow> (Inr (PBool False), s0) | Some vr \<Rightarrow>
          case current_rang c of None \<Rightarrow> (Inr (PBool False), s0) | Some cr \<Rightarrow>
            on_return (write_data s0 ''func sin'') (\<lambda>ret s1.
            on_return (write_data s1 (''pow:rang '' @ py_str vr @ '','' @ py_str cr)) (\<lambda>ret1 s2.
            on_return (write_data s2 (''pow '' @ float_repr v @ '','' @ float_repr c)) (\<lambda>ret2 s3.
            on_return (write_data s3 ''UNIT:PHAS DEG'') (\<lambda>ret3 s4.
              if float_le (exact_int (- 90)) ph \<and> float_le ph (exact_int 90) then
                on_return (write_data s4 (''pow:phase '' @ float_repr ph)) (\<lambda>ret4 s5.
                  if float_le (exact_int 45) f \<and> float_le f (exact_int 400) then
                    on_return (write_data s5 (''freq '' @ float_repr f)) (\<lambda>ret5 s6.
                      (Inr (py_and (py_and (py_and (py_and (py_and ret ret1) ret2) ret3) ret4)
                              ret5), s6))
                  else (Inr (PBool False), s5))
              else (Inr (PBool False), s4)))))))"

definition get_ac_power :: "te5025 \<Rightarrow> pyval \<Rightarrow> result \<times> te5025" where
  "get_ac_power self unit =
     on_return (get_data self ''func?'') (\<lambda>r s1.
       case py_upper r of
         Inl e \<Rightarrow> (Inl e, s1)
       | Inr func \<Rightarrow>
           if func = ''SIN'' then
             (case py_upper unit of
                Inl e \<Rightarrow> (Inl e, s1)
              | Inr u \<Rightarrow>
                  if py_in (PStr u) [PStr ''WATT'', PStr ''VA''] then
                    on_return (write_data s1 (''unit:pow '' @ py_str unit))
                      (\<lambda>_ s2. get_data s2 ''pow:pow?'')
                  else (Inr (PStr ''error''), s1))
           else (Inr (PStr ''error''), s1))"

definition get_ac_power_parameters :: "te5025 \<Rightarrow> result \<times> te5025" where
  "get_ac_power_parameters self =
     on_return (get_data self ''func?'') (\<lambda>r s1.
       case py_upper r of
         Inl e \<Rightarrow> (Inl e, s1)
       | Inr func \<Rightarrow>
           if func = ''SIN'' then
             on_return (get_data s1 ''pow?'') (\<lambda>v_a s2.
             on_return (get_data s2 ''freq?'') (\<lambda>freq s3.
             on_return (get_data s3 ''pow:phase?'') (\<lambda>ph s4.
               (Inr (PStr (py_str v_a @ '','' @ py_str freq @ '','' @ py_str ph)), s4))))
           else (Inr (PStr ''error''), s1))"

definition set_dc_power :: "te5025 \<Rightarrow> pyval \<Rightarrow> pyval \<Rightarrow> result \<times> te5025" where
  "set_dc_power self voltage current =
     on_return (output_disable self) (\<lambda>_ s0.
       except_False
         (case py_float voltage of Inl e \<Rightarrow> (Inl e, s0) | Inr v \<Rightarrow>
          case py_float current of Inl e \<Rightarrow> (Inl e, s0) | Inr c \<Rightarrow>
          case volt_rang v of None \<Rightarrow> (Inr (PBool False), s0) | Some vr \<Rightarrow>
          case current_rang c of None \<Rightarrow> (Inr (PBool False), s0) | Some cr \<Rightarrow>
            on_return (write_data s0 ''func dc'') (\<lambda>ret s1.
            on_return (write_data s1 (''pow:rang '' @ py_str vr @ '','' @ py_str cr)) (\<lambda>ret1 s2.
            on_return (write_data s2 (''pow '' @ float_repr v @ '','' @ float_repr c)) (\<lambda>ret2 s3.
              (Inr (py_and (py_and ret ret1) ret2), s3))))))"

definition get_dc_power :: "te5025 \<Rightarrow> pyval \<Rightarrow> result \<times> te5025" where
  "get_dc_power self unit =
     on_return (get_data self ''func?'') (\<lambda>r s1.
       case py_upper r of
         Inl e \<Rightarrow> (Inl e, s1)
       | Inr func \<Rightarrow>
           if func = ''DC'' then
             (case py_upper unit of
                Inl e \<Rightarrow> (Inl e, s1)
              | Inr u \<Rightarrow>
                  if py_in (PStr u) [PStr ''WATT'', PStr ''VA''] then
                    on_return (write_data s1 (''unit:pow '' @ py_str unit))
                      (\<lambda>_ s2. get_data s2 ''pow:pow?'')
                  else (Inr (PStr ''error''), s1))
           else (Inr (PStr ''error''), s1))"

definition get_dc_power_parameters :: "te5025 \<Rightarrow> result \<times> te5025" where
  "get_dc_power_parameters self =
     on_return (get_data self ''func?'') (\<lambda>r s1.
       case py_upper r of
         Inl e \<Rightarrow> (Inl e, s1)
       | Inr func \<Rightarrow>
           if func = ''DC'' then get_data s1 ''pow?''
           else (Inr (PStr ''error''), s1))"

subsection \<open>Observing the traffic\<close>

text \<open>The commands written to the instrument, in order, without the queries.\<close>

fun writes :: "event list \<Rightarrow> string list" where
  "writes [] = []"
| "writes (Write d # h) = d # writes h"
| "writes (Query q # h) = writes h"

text \<open>
  An instrument for the examples: it answers each query from a fixed table, raises on any
  other query, and accepts every command.
\<close>

definition fixed_instrument :: "(string \<times> string) list \<Rightarrow> resource" where
  "fixed_instrument answers = \<lparr>reply = (\<lambda>h q. map_of answers q), accept = (\<lambda>h d. True)\<rparr>"

definition connected_to :: "(string \<times> string) list \<Rightarrow> te5025" where
  "connected_to answers = init (Some (fixed_instrument answers))"

text \<open>
  What a query returns at this moment: the reply of the instrument to \<open>q\<close> after the traffic
  so far, \<^verbatim>\<open>None\<close> when the query raises or the driver is not connected.
\<close>

definition reported :: "te5025 \<Rightarrow> string \<Rightarrow> pyval" where
  "reported self q =
     (if instrument_connected self then
        (case reply (inst self) (traffic self) q of Some r \<Rightarrow> PStr r | None \<Rightarrow> PNone)
      else PNone)"

text \<open>The state after a query: the query is on the bus when the driver is connected.\<close>

definition asked :: "te5025 \<Rightarrow> string \<Rightarrow> te5025" where
  "asked self q =
     (if instrument_connected self then self\<lparr>traffic := traffic self @ [Query q]\<rparr> else self)"

subsection \<open>The rules of the specification\<close>

text \<open>
  The amplitude rule of the bound table: the amplitude coerces to a number, lies in
  \<open>[-bound, bound]\<close>, and is at most \<open>1.1\<close> times the range, where the range is what the
  instrument reported and must coerce to a number too. The product is the float product.
\<close>

definition admissible_amplitude :: "int \<Rightarrow> pyval \<Rightarrow> pyval \<Rightarrow> bool" where
  "admissible_amplitude bound amplitude rng =
     (case py_float amplitude of
        Inl e \<Rightarrow> False
      | Inr a \<Rightarrow>
          float_le (exact_int (- bound)) a \<and> float_le a (exact_int bound) \<and>
          (case py_float rng of
             Inl e \<Rightarrow> False
           | Inr r \<Rightarrow> float_le a (float_mul r (dec_float False 11 (- 1)))))"

text \<open>The thermocouple table of the specification, in degrees Celsius.\<close>

definition tc_interval :: "string \<Rightarrow> (int \<times> int) option" where
  "tc_interval =
     map_of [(''J'', (- 210, 1200)), (''K'', (- 200, 1250)), (''T'', (- 200, 400)),
             (''R'', (- 50, 1750)), (''S'', (- 50, 1750)), (''B'', (100, 1800)),
             (''N'', (- 200, 1300)), (''E'', (- 200, 1000))]"

definition tc_in_interval :: "string \<Rightarrow> pyfloat \<Rightarrow> bool" where
  "tc_in_interval type t =
     (case tc_interval type of
        None \<Rightarrow> False
      | Some (lo, hi) \<Rightarrow> float_le (exact_int lo) t \<and> float_le t (exact_int hi))"

text \<open>
  The thermocouple rule: the temperature coerces to a number and lies in the interval of the
  type, which is the upper-cased text that the instrument reported.
\<close>

definition admissible_temperature :: "pyval \<Rightarrow> pyval \<Rightarrow> bool" where
  "admissible_temperature temperature rtype =
     (case py_float temperature of
        Inl e \<Rightarrow> False
      | Inr t \<Rightarrow>
          (case py_upper rtype of
             Inl e \<Rightarrow> False
           | Inr type \<Rightarrow> tc_in_interval type t))"

text \<open>
  The breakpoint tables of the specification, each breakpoint with the range it selects, in
  increasing order.
\<close>

definition volt_breakpoints :: "(pyfloat \<times> pyval) list" where
  "volt_breakpoints =
     [(dec_float False 22 (- 3), PFloat (dec_float False 2 (- 2))),
      (dec_float False 22 (- 2), PFloat (dec_float False 2 (- 1))),
      (dec_float False 22 (- 1), PInt 2),
      (exact_int 22, PInt 20),
      (exact_int 220, PInt 200),
      (exact_int 1050, PInt 1000)]"

definition current_breakpoints :: "(pyfloat \<times> pyval) list" where
  "current_breakpoints = [(dec_float False 22 (- 1), PInt 2), (exact_int 22, PInt 20)]"

text \<open>The range of the first breakpoint of a table that is at least \<open>x\<close>.\<close>

definition first_covering :: "(pyfloat \<times> pyval) list \<Rightarrow> pyfloat \<Rightarrow> pyval option" where
  "first_covering table x = map_option snd (find (\<lambda>b. float_le x (fst b)) table)"

text \<open>
  The two spellings of each range, the number and the text with its unit, as the docstrings
  of \<^verbatim>\<open>set_voltage_range\<close> and \<^verbatim>\<open>set_current_range\<close> list them.
\<close>

definition voltage_range_forms :: "(pyval \<times> pyval) list" where
  "voltage_range_forms =
     [(PFloat (dec_float False 2 (- 2)), PStr ''20mV''),
      (PFloat (dec_float False 2 (- 1)), PStr ''200mV''),
      (PInt 2, PStr ''2V''), (PInt 20, PStr ''20V''), (PInt 200, PStr ''200V''),
      (PInt 1000, PStr ''1kV'')]"

definition current_range_forms :: "(pyval \<times> pyval) list" where
  "current_range_forms =
     [(PFloat (dec_float False 2 (- 4)), PStr ''200uA''),
      (PFloat (dec_float False 2 (- 3)), PStr ''2mA''),
      (PFloat (dec_float False 2 (- 2)), PStr ''20mA''),
      (PFloat (dec_float False 2 (- 1)), PStr ''200mA''),
      (PInt 2, PStr ''2A''), (PInt 20, PStr ''20A'')]"

text \<open>
  When an input passes the validation of a setter: the admissible sets of the bound table,
  as predicates on the arguments.
\<close>

definition coerces :: "pyval \<Rightarrow> bool" where
  "coerces x = (case py_float x of Inl e \<Rightarrow> False | Inr f \<Rightarrow> True)"

definition valid_tc_type :: "pyval \<Rightarrow> bool" where
  "valid_tc_type type =
     (case py_upper type of Inl e \<Rightarrow> False | Inr u \<Rightarrow> py_in (PStr u) tc_types)"

definition valid_acv_frequency :: "pyval \<Rightarrow> bool" where
  "valid_acv_frequency frequency =
     (case py_int frequency of Inl e \<Rightarrow> False | Inr f \<Rightarrow> 0 < f \<and> f \<le> 20000)"

definition valid_timing :: "pyval list \<Rightarrow> pyval \<Rightarrow> bool" where
  "valid_timing admitted x =
     (case py_float x of Inl e \<Rightarrow> False | Inr f \<Rightarrow> py_in (PFloat f) admitted)"

definition valid_rtd :: "pyval \<Rightarrow> pyval \<Rightarrow> bool" where
  "valid_rtd temperature unit =
     (rtd_test unit temperature ''C'' (exact_int (- 180)) (exact_int 850) = Inr True
      \<or> rtd_test unit temperature ''K''
           (dec_float False 9315 (- 2)) (dec_float False 112315 (- 2)) = Inr True
      \<or> rtd_test unit temperature ''F'' (exact_int (- 292)) (exact_int 1562) = Inr True)"

definition valid_power :: "pyval \<Rightarrow> pyval \<Rightarrow> bool" where
  "valid_power voltage current =
     (case py_float voltage of
        Inl e \<Rightarrow> False
      | Inr v \<Rightarrow>
          (case py_float current of
             Inl e \<Rightarrow> False
           | Inr c \<Rightarrow> volt_rang v \<noteq> None \<and> current_rang c \<noteq> None))"

section \<open>Properties\<close>

subsection \<open>Transport facts\<close>

lemma writes_append: "writes (h @ k) = writes h @ writes k"
  by (induction h rule: writes.induct) simp_all

lemma get_data_connected:
  "instrument_connected self \<Longrightarrow> reply (inst self) (traffic self) q = Some r \<Longrightarrow>
   get_data self q = (Inr (PStr r), self\<lparr>traffic := traffic self @ [Query q]\<rparr>)"
  by (simp add: get_data_def)

lemma get_data_disconnected:
  "\<not> instrument_connected self \<Longrightarrow> get_data self q = (Inr PNone, self)"
  by (simp add: get_data_def)

lemma write_data_disconnected:
  "\<not> instrument_connected self \<Longrightarrow> write_data self d = (Inr (PBool False), self)"
  by (simp add: write_data_def)

lemma connected_to_simps:
  "instrument_connected (connected_to answers)"
  "traffic (connected_to answers) = []"
  "reply (inst (connected_to answers)) h q = map_of answers q"
  "accept (inst (connected_to answers)) h d"
  by (simp_all add: connected_to_def init_def fixed_instrument_def)

subsection \<open>Mode gating of the power getters\<close>

text \<open>
  Claim C8. When the instrument answers \<^verbatim>\<open>func?\<close> with a function other than the expected one
  (\<^verbatim>\<open>DC\<close> for \<^verbatim>\<open>get_dc_power\<close> and \<^verbatim>\<open>get_dc_power_parameters\<close>, \<^verbatim>\<open>SIN\<close> for the two AC getters;
  so in particular \<^verbatim>\<open>get_dc_power\<close> while the function is \<^verbatim>\<open>SIN\<close>), the getter returns the
  string \<^verbatim>\<open>'error'\<close>, and the only traffic of the call is the \<^verbatim>\<open>func?\<close> query: \<^verbatim>\<open>pow:pow?\<close> and
  \<^verbatim>\<open>pow?\<close> are not issued.
\<close>

theorem power_getters_mode_gate:
  assumes "instrument_connected self"
    and "reply (inst self) (traffic self) ''func?'' = Some r"
  shows "(upper r \<noteq> ''DC'' \<longrightarrow>
            get_dc_power self unit =
              (Inr (PStr ''error''), self\<lparr>traffic := traffic self @ [Query ''func?'']\<rparr>)
          \<and> get_dc_power_parameters self =
              (Inr (PStr ''error''), self\<lparr>traffic := traffic self @ [Query ''func?'']\<rparr>))
       \<and> (upper r \<noteq> ''SIN'' \<longrightarrow>
            get_ac_power self unit =
              (Inr (PStr ''error''), self\<lparr>traffic := traffic self @ [Query ''func?'']\<rparr>)
          \<and> get_ac_power_parameters self =
              (Inr (PStr ''error''), self\<lparr>traffic := traffic self @ [Query ''func?'']\<rparr>))"
  using assms
  by (simp add: get_dc_power_def get_dc_power_parameters_def get_ac_power_def
      get_ac_power_parameters_def get_data_connected)

theorem power_getters_mode_gate_witness:
  "instrument_connected (connected_to [(''func?'', ''SIN'')])
   \<and> reply (inst (connected_to [(''func?'', ''SIN'')]))
        (traffic (connected_to [(''func?'', ''SIN'')])) ''func?'' = Some ''SIN''
   \<and> upper ''SIN'' \<noteq> ''DC''
   \<and> fst (get_dc_power (connected_to [(''func?'', ''SIN'')]) (PStr ''WATT''))
        = Inr (PStr ''error'')
   \<and> traffic (snd (get_dc_power (connected_to [(''func?'', ''SIN'')]) (PStr ''WATT'')))
        = [Query ''func?'']"
proof -
  let ?s = "connected_to [(''func?'', ''SIN'')]"
  have c: "instrument_connected ?s"
    by (simp add: connected_to_simps)
  have r: "reply (inst ?s) (traffic ?s) ''func?'' = Some ''SIN''"
    by (simp add: connected_to_simps)
  have u: "upper ''SIN'' \<noteq> ''DC''"
    by code_simp
  from power_getters_mode_gate [OF c r, of "PStr ''WATT''"] u
  have "get_dc_power ?s (PStr ''WATT'')
          = (Inr (PStr ''error''), ?s\<lparr>traffic := traffic ?s @ [Query ''func?'']\<rparr>)"
    by blast
  with c r u show ?thesis
    by (simp add: connected_to_simps)
qed

subsection \<open>Facts about floats\<close>

lemma pow2_pos: "0 < pow2 k"
  by (simp add: pow2_def)

lemma signed_zero: "signed s 0 = 0"
  by (simp add: signed_def)

lemma round_double_nonneg: "float_le (exact_int 0) (round_double False p q)"
  by (simp add: round_double_def Let_def exact_int_def signed_def pow2_def)

lemma round_double_zero: "round_double s 0 q = Fin s 0 0"
  by (simp add: round_double_def)

lemma one_point_one: "dec_float False 11 (- 1) = Fin False 4953959590107546 (- 52)"
  by code_simp

lemma float_mul_nonneg:
  assumes "float_le (exact_int 0) x" and "c \<noteq> 0"
  shows "float_le (exact_int 0) (float_mul x (Fin False c k))"
proof (cases x)
  case (Fin s m e)
  show ?thesis
  proof (cases s)
    case False
    with Fin show ?thesis
      by (simp add: round_double_nonneg)
  next
    case True
    with Fin assms(1) have "m = 0"
      using pow2_pos [of "e - min 0 e"]
      by (simp add: exact_int_def signed_def mult_le_0_iff)
    with Fin show ?thesis
      by (simp add: round_double_zero exact_int_def signed_def)
  qed
next
  case (Inf s)
  with assms show ?thesis
    by (simp add: exact_int_def)
next
  case NaN
  with assms show ?thesis
    by (simp add: exact_int_def)
qed

lemma float_negative_le:
  assumes "\<not> float_le (exact_int 0) a" and "float_le b a" and "float_le (exact_int 0) y"
  shows "float_le a y"
proof (cases a)
  case a: (Fin s m e)
  from assms(1) a have "signed s m * pow2 (e - min 0 e) < 0"
    by (simp add: exact_int_def signed_zero not_le)
  then have neg: "signed s m < 0"
    using pow2_pos [of "e - min 0 e"] by (auto simp: mult_less_0_iff)
  show ?thesis
  proof (cases y)
    case (Fin s2 m2 e2)
    with assms(3) have "0 \<le> signed s2 m2"
      using pow2_pos [of "e2 - min 0 e2"]
      by (simp add: exact_int_def signed_def zero_le_mult_iff)
    moreover have "signed s m * pow2 (e - min e e2) \<le> 0"
      using neg pow2_pos [of "e - min e e2"] by (simp add: mult_le_0_iff)
    moreover have "0 \<le> signed s2 m2 * pow2 (e2 - min e e2)"
      using calculation(1) pow2_pos [of "e2 - min e e2"] by simp
    ultimately show ?thesis
      using a Fin by simp
  next
    case (Inf s2)
    with assms(3) a show ?thesis
      by (simp add: exact_int_def)
  next
    case NaN
    with assms(3) show ?thesis
      by (simp add: exact_int_def)
  qed
next
  case (Inf s)
  with assms(1) have "s"
    by (simp add: exact_int_def)
  with Inf assms(3) show ?thesis
    by (cases y) (simp_all add: exact_int_def)
next
  case NaN
  with assms(2) show ?thesis
    by (cases b) simp_all
qed

subsection \<open>Amplitude validation\<close>

lemma get_data_reported: "get_data self q = (Inr (reported self q), asked self q)"
  by (simp add: get_data_def reported_def asked_def split: option.splits)

lemma except_False_write_data: "except_False (write_data self d) = write_data self d"
  by (simp add: write_data_def)

lemma writes_asked: "writes (traffic (asked self q)) = writes (traffic self)"
  by (simp add: asked_def writes_append)

lemma set_voltage_amplitude_admissible:
  "admissible_amplitude 1050 amplitude (reported self ''VOLT:RANG?'') \<Longrightarrow>
   py_float amplitude = Inr a \<Longrightarrow>
   set_voltage_amplitude self amplitude
     = write_data (asked self ''VOLT:RANG?'') (''VOLT:AMPL '' @ float_repr a)"
  by (auto simp: admissible_amplitude_def set_voltage_amplitude_def get_voltage_range_def
      get_data_reported except_False_write_data split: sum.splits)

lemma set_voltage_amplitude_inadmissible:
  "\<not> admissible_amplitude 1050 amplitude (reported self ''VOLT:RANG?'') \<Longrightarrow>
   fst (set_voltage_amplitude self amplitude) = Inr (PBool False)
   \<and> writes (traffic (snd (set_voltage_amplitude self amplitude))) = writes (traffic self)"
  by (auto simp: admissible_amplitude_def set_voltage_amplitude_def get_voltage_range_def
      get_data_reported writes_asked split: sum.splits)

lemma set_current_amplitude_admissible:
  "admissible_amplitude 22 amplitude (reported self ''CURR:RANG?'') \<Longrightarrow>
   py_float amplitude = Inr a \<Longrightarrow>
   set_current_amplitude self amplitude
     = write_data (asked self ''CURR:RANG?'') (''CURR:AMPL '' @ float_repr a)"
  by (auto simp: admissible_amplitude_def set_current_amplitude_def get_current_range_def
      get_data_reported except_False_write_data split: sum.splits)

lemma set_current_amplitude_inadmissible:
  "\<not> admissible_amplitude 22 amplitude (reported self ''CURR:RANG?'') \<Longrightarrow>
   fst (set_current_amplitude self amplitude) = Inr (PBool False)
   \<and> writes (traffic (snd (set_current_amplitude self amplitude))) = writes (traffic self)"
  by (auto simp: admissible_amplitude_def set_current_amplitude_def get_current_range_def
      get_data_reported writes_asked split: sum.splits)

lemma admissible_amplitude_coerces:
  "admissible_amplitude bound amplitude rng \<Longrightarrow> \<exists>a. py_float amplitude = Inr a"
  by (cases "py_float amplitude") (simp_all add: admissible_amplitude_def)

text \<open>
  Claim C1. \<^verbatim>\<open>set_voltage_amplitude\<close> (and \<^verbatim>\<open>set_current_amplitude\<close>) sends its command exactly
  when the amplitude coerces to a number, lies in \<open>[-1050, 1050]\<close> (in \<open>[-22, 22]\<close>) and is at
  most \<open>1.1\<close> times the range that the instrument reports to the \<^verbatim>\<open>VOLT:RANG?\<close>
  (\<^verbatim>\<open>CURR:RANG?\<close>) query made during the call: then the call is that query followed by the
  write of \<^verbatim>\<open>VOLT:AMPL a\<close> (\<^verbatim>\<open>CURR:AMPL a\<close>); otherwise it returns \<^verbatim>\<open>False\<close> and writes nothing.
\<close>

theorem amplitude_validation:
  "(admissible_amplitude 1050 amplitude (reported self ''VOLT:RANG?'') \<longrightarrow>
      (\<exists>a. py_float amplitude = Inr a \<and>
           set_voltage_amplitude self amplitude
             = write_data (asked self ''VOLT:RANG?'') (''VOLT:AMPL '' @ float_repr a)))
   \<and> (\<not> admissible_amplitude 1050 amplitude (reported self ''VOLT:RANG?'') \<longrightarrow>
         fst (set_voltage_amplitude self amplitude) = Inr (PBool False)
         \<and> writes (traffic (snd (set_voltage_amplitude self amplitude)))
             = writes (traffic self))
   \<and> (admissible_amplitude 22 amplitude (reported self ''CURR:RANG?'') \<longrightarrow>
         (\<exists>a. py_float amplitude = Inr a \<and>
              set_current_amplitude self amplitude
                = write_data (asked self ''CURR:RANG?'') (''CURR:AMPL '' @ float_repr a)))
   \<and> (\<not> admissible_amplitude 22 amplitude (reported self ''CURR:RANG?'') \<longrightarrow>
         fst (set_current_amplitude self amplitude) = Inr (PBool False)
         \<and> writes (traffic (snd (set_current_amplitude self amplitude)))
             = writes (traffic self))"
  using set_voltage_amplitude_admissible [of amplitude self]
    set_voltage_amplitude_inadmissible [of amplitude self]
    set_current_amplitude_admissible [of amplitude self]
    set_current_amplitude_inadmissible [of amplitude self]
    admissible_amplitude_coerces [of 1050 amplitude]
    admissible_amplitude_coerces [of 22 amplitude]
  by blast

text \<open>
  With the instrument reporting the voltage range \<^verbatim>\<open>20\<close>: the amplitude \<^verbatim>\<open>22\<close> is accepted and
  \<^verbatim>\<open>VOLT:AMPL 22.0\<close> is sent, the amplitude \<^verbatim>\<open>22.01\<close> is rejected with \<^verbatim>\<open>False\<close>.
\<close>

theorem amplitude_validation_witness:
  "admissible_amplitude 1050 (PInt 22)
     (reported (connected_to [(''VOLT:RANG?'', ''20'')]) ''VOLT:RANG?'')
   \<and> fst (set_voltage_amplitude (connected_to [(''VOLT:RANG?'', ''20'')]) (PInt 22))
        = Inr (PBool True)
   \<and> traffic (snd (set_voltage_amplitude (connected_to [(''VOLT:RANG?'', ''20'')]) (PInt 22)))
        = [Query ''VOLT:RANG?'', Write ''VOLT:AMPL 22.0'']
   \<and> \<not> admissible_amplitude 1050 (PFloat (dec_float False 2201 (- 2)))
         (reported (connected_to [(''VOLT:RANG?'', ''20'')]) ''VOLT:RANG?'')
   \<and> fst (set_voltage_amplitude (connected_to [(''VOLT:RANG?'', ''20'')])
         (PFloat (dec_float False 2201 (- 2)))) = Inr (PBool False)
   \<and> writes (traffic (snd (set_voltage_amplitude (connected_to [(''VOLT:RANG?'', ''20'')])
         (PFloat (dec_float False 2201 (- 2)))))) = []"
proof -
  let ?s = "connected_to [(''VOLT:RANG?'', ''20'')]"
  have yes: "admissible_amplitude 1050 (PInt 22) (reported ?s ''VOLT:RANG?'')"
    by code_simp
  have no: "\<not> admissible_amplitude 1050 (PFloat (dec_float False 2201 (- 2)))
              (reported ?s ''VOLT:RANG?'')"
    by code_simp
  have a: "py_float (PInt 22) = Inr (Fin False 6192449487634432 (- 48))"
    by code_simp
  have r: "float_repr (Fin False 6192449487634432 (- 48)) = ''22.0''"
    by code_simp
  from amplitude_validation [where amplitude = "PInt 22" and self = ?s] yes a r
  have "set_voltage_amplitude ?s (PInt 22)
          = write_data (asked ?s ''VOLT:RANG?'') ''VOLT:AMPL 22.0''"
    by auto
  then have accepted:
    "fst (set_voltage_amplitude ?s (PInt 22)) = Inr (PBool True)"
    "traffic (snd (set_voltage_amplitude ?s (PInt 22)))
       = [Query ''VOLT:RANG?'', Write ''VOLT:AMPL 22.0'']"
    by (simp_all add: write_data_def asked_def connected_to_simps)
  from amplitude_validation [where amplitude = "PFloat (dec_float False 2201 (- 2))"
      and self = ?s] no
  have "fst (set_voltage_amplitude ?s (PFloat (dec_float False 2201 (- 2))))
          = Inr (PBool False)
        \<and> writes (traffic (snd (set_voltage_amplitude ?s
            (PFloat (dec_float False 2201 (- 2)))))) = writes (traffic ?s)"
    by blast
  with yes no accepted show ?thesis
    by (simp add: connected_to_simps)
qed

subsection \<open>Negative amplitudes\<close>

text \<open>
  Claim C10. A negative amplitude that is at least \<open>-1050\<close> (at least \<open>-22\<close> for a current)
  passes the comparison with \<open>1.1\<close> times the range whenever the instrument reports a
  non-negative number as the range, however small: the amplitude command is sent.
\<close>

theorem negative_amplitude_accepted:
  assumes "py_float amplitude = Inr a" and "float_lt a (exact_int 0)"
  shows "(float_le (exact_int (- 1050)) a
          \<and> (\<exists>r. py_float (reported self ''VOLT:RANG?'') = Inr r \<and> float_le (exact_int 0) r)
          \<longrightarrow> set_voltage_amplitude self amplitude
                = write_data (asked self ''VOLT:RANG?'') (''VOLT:AMPL '' @ float_repr a))
       \<and> (float_le (exact_int (- 22)) a
          \<and> (\<exists>r. py_float (reported self ''CURR:RANG?'') = Inr r \<and> float_le (exact_int 0) r)
          \<longrightarrow> set_current_amplitude self amplitude
                = write_data (asked self ''CURR:RANG?'') (''CURR:AMPL '' @ float_repr a))"
proof -
  from assms(2) have neg: "\<not> float_le (exact_int 0) a"
    by (simp add: float_lt_def)
  have below: "float_le a y" if "float_le b a" and "float_le (exact_int 0) y" for b y
    using float_negative_le [OF neg that] .
  have headroom: "float_le a (float_mul r (dec_float False 11 (- 1)))"
    if "float_le b a" and "float_le (exact_int 0) r" for b r
    using below [OF that(1)] float_mul_nonneg [OF that(2), of 4953959590107546 "- 52"]
    by (simp add: one_point_one)
  have pos: "float_le (exact_int 0) (exact_int 1050)" "float_le (exact_int 0) (exact_int 22)"
    by (simp_all add: exact_int_def signed_def pow2_def)
  have volt: "admissible_amplitude 1050 amplitude (reported self ''VOLT:RANG?'')"
    if "float_le (exact_int (- 1050)) a"
      and "py_float (reported self ''VOLT:RANG?'') = Inr r" and "float_le (exact_int 0) r" for r
    using that assms(1) below [OF that(1) pos(1)] headroom [OF that(1) that(3)]
    by (simp add: admissible_amplitude_def)
  have curr: "admissible_amplitude 22 amplitude (reported self ''CURR:RANG?'')"
    if "float_le (exact_int (- 22)) a"
      and "py_float (reported self ''CURR:RANG?'') = Inr r" and "float_le (exact_int 0) r" for r
    using that assms(1) below [OF that(1) pos(2)] headroom [OF that(1) that(3)]
    by (simp add: admissible_amplitude_def)
  show ?thesis
    using volt curr set_voltage_amplitude_admissible [OF _ assms(1)]
      set_current_amplitude_admissible [OF _ assms(1)]
    by blast
qed

text \<open>The amplitude \<^verbatim>\<open>-1000\<close> is accepted on the \<^verbatim>\<open>0.02\<close> V range.\<close>

theorem negative_amplitude_accepted_witness:
  "py_float (PInt (- 1000)) = Inr (Fin True 8796093022208000 (- 43))
   \<and> float_lt (Fin True 8796093022208000 (- 43)) (exact_int 0)
   \<and> float_le (exact_int (- 1050)) (Fin True 8796093022208000 (- 43))
   \<and> py_float (reported (connected_to [(''VOLT:RANG?'', ''0.02'')]) ''VOLT:RANG?'')
        = Inr (dec_float False 2 (- 2))
   \<and> float_le (exact_int 0) (dec_float False 2 (- 2))
   \<and> fst (set_voltage_amplitude (connected_to [(''VOLT:RANG?'', ''0.02'')]) (PInt (- 1000)))
        = Inr (PBool True)
   \<and> traffic (snd (set_voltage_amplitude (connected_to [(''VOLT:RANG?'', ''0.02'')])
        (PInt (- 1000)))) = [Query ''VOLT:RANG?'', Write ''VOLT:AMPL -1000.0'']"
proof -
  let ?s = "connected_to [(''VOLT:RANG?'', ''0.02'')]"
  let ?a = "Fin True 8796093022208000 (- 43)"
  have a: "py_float (PInt (- 1000)) = Inr ?a"
    by code_simp
  have neg: "float_lt ?a (exact_int 0)"
    by code_simp
  have low: "float_le (exact_int (- 1050)) ?a"
    by code_simp
  have rng: "py_float (reported ?s ''VOLT:RANG?'') = Inr (dec_float False 2 (- 2))"
    by code_simp
  have nonneg: "float_le (exact_int 0) (dec_float False 2 (- 2))"
    by code_simp
  have r: "float_repr ?a = ''-1000.0''"
    by code_simp
  from negative_amplitude_accepted [OF a neg, of ?s] low rng nonneg r
  have "set_voltage_amplitude ?s (PInt (- 1000))
          = write_data (asked ?s ''VOLT:RANG?'') ''VOLT:AMPL -1000.0''"
    by auto
  then have
    "fst (set_voltage_amplitude ?s (PInt (- 1000))) = Inr (PBool True)"
    "traffic (snd (set_voltage_amplitude ?s (PInt (- 1000))))
       = [Query ''VOLT:RANG?'', Write ''VOLT:AMPL -1000.0'']"
    by (simp_all add: write_data_def asked_def connected_to_simps)
  with a neg low rng nonneg show ?thesis
    by simp
qed

subsection \<open>Thermocouple temperature\<close>

lemma tc_admits_iff: "tc_admits type t = tc_in_interval type t"
  by (simp add: tc_admits_def tc_in_interval_def tc_interval_def)

lemma set_TC_temperature_admissible:
  "admissible_temperature temperature (reported self ''ther:type?'') \<Longrightarrow>
   py_float temperature = Inr t \<Longrightarrow>
   set_TC_temperature self temperature
     = write_data (asked self ''ther:type?'') (''ther '' @ float_repr t)"
  by (auto simp: admissible_temperature_def set_TC_temperature_def get_TC_type_def
      get_data_reported except_False_write_data tc_admits_iff split: sum.splits)

lemma set_TC_temperature_inadmissible:
  "\<not> admissible_temperature temperature (reported self ''ther:type?'') \<Longrightarrow>
   fst (set_TC_temperature self temperature) = Inr (PBool False)
   \<and> writes (traffic (snd (set_TC_temperature self temperature))) = writes (traffic self)"
  by (auto simp: admissible_temperature_def set_TC_temperature_def get_TC_type_def
      get_data_reported writes_asked tc_admits_iff split: sum.splits)

lemma admissible_temperature_coerces:
  "admissible_temperature temperature rtype \<Longrightarrow> \<exists>t. py_float temperature = Inr t"
  by (cases "py_float temperature") (simp_all add: admissible_temperature_def)

text \<open>
  Claim C5. \<^verbatim>\<open>set_TC_temperature\<close> takes the temperature only; the thermocouple type is the
  reply of the instrument to the \<^verbatim>\<open>ther:type?\<close> query made during the call. The command
  \<^verbatim>\<open>ther t\<close> is sent exactly when the temperature coerces to a number that lies in the closed
  interval of that type in the table J[-210,1200], K[-200,1250], T[-200,400], R[-50,1750],
  S[-50,1750], B[100,1800], N[-200,1300], E[-200,1000]; otherwise the call returns \<^verbatim>\<open>False\<close>
  and writes nothing.
\<close>

theorem thermocouple_validation:
  "(admissible_temperature temperature (reported self ''ther:type?'') \<longrightarrow>
      (\<exists>t. py_float temperature = Inr t \<and>
           set_TC_temperature self temperature
             = write_data (asked self ''ther:type?'') (''ther '' @ float_repr t)))
   \<and> (\<not> admissible_temperature temperature (reported self ''ther:type?'') \<longrightarrow>
         fst (set_TC_temperature self temperature) = Inr (PBool False)
         \<and> writes (traffic (snd (set_TC_temperature self temperature)))
             = writes (traffic self))"
  using set_TC_temperature_admissible [of temperature self]
    set_TC_temperature_inadmissible [of temperature self]
    admissible_temperature_coerces [of temperature]
  by blast

text \<open>
  Type K: \<^verbatim>\<open>1250\<close> is accepted and \<^verbatim>\<open>1251\<close> rejected. Type J: \<^verbatim>\<open>1250\<close> is rejected.
\<close>

theorem thermocouple_validation_witness:
  "admissible_temperature (PInt 1250)
     (reported (connected_to [(''ther:type?'', ''K'')]) ''ther:type?'')
   \<and> fst (set_TC_temperature (connected_to [(''ther:type?'', ''K'')]) (PInt 1250))
        = Inr (PBool True)
   \<and> traffic (snd (set_TC_temperature (connected_to [(''ther:type?'', ''K'')]) (PInt 1250)))
        = [Query ''ther:type?'', Write ''ther 1250.0'']
   \<and> \<not> admissible_temperature (PInt 1251)
         (reported (connected_to [(''ther:type?'', ''K'')]) ''ther:type?'')
   \<and> fst (set_TC_temperature (connected_to [(''ther:type?'', ''K'')]) (PInt 1251))
        = Inr (PBool False)
   \<and> writes (traffic (snd (set_TC_temperature (connected_to [(''ther:type?'', ''K'')])
        (PInt 1251)))) = []
   \<and> \<not> admissible_temperature (PInt 1250)
         (reported (connected_to [(''ther:type?'', ''J'')]) ''ther:type?'')
   \<and> fst (set_TC_temperature (connected_to [(''ther:type?'', ''J'')]) (PInt 1250))
        = Inr (PBool False)
   \<and> writes (traffic (snd (set_TC_temperature (connected_to [(''ther:type?'', ''J'')])
        (PInt 1250)))) = []"
proof -
  let ?k = "connected_to [(''ther:type?'', ''K'')]"
  let ?j = "connected_to [(''ther:type?'', ''J'')]"
  have yes: "admissible_temperature (PInt 1250) (reported ?k ''ther:type?'')"
    by code_simp
  have no_k: "\<not> admissible_temperature (PInt 1251) (reported ?k ''ther:type?'')"
    by code_simp
  have no_j: "\<not> admissible_temperature (PInt 1250) (reported ?j ''ther:type?'')"
    by code_simp
  have t: "py_float (PInt 1250) = Inr (Fin False 5497558138880000 (- 42))"
    by code_simp
  have r: "float_repr (Fin False 5497558138880000 (- 42)) = ''1250.0''"
    by code_simp
  from thermocouple_validation [where temperature = "PInt 1250" and self = ?k] yes t r
  have "set_TC_temperature ?k (PInt 1250)
          = write_data (asked ?k ''ther:type?'') ''ther 1250.0''"
    by auto
  then have accepted:
    "fst (set_TC_temperature ?k (PInt 1250)) = Inr (PBool True)"
    "traffic (snd (set_TC_temperature ?k (PInt 1250)))
       = [Query ''ther:type?'', Write ''ther 1250.0'']"
    by (simp_all add: write_data_def asked_def connected_to_simps)
  from thermocouple_validation [where temperature = "PInt 1251" and self = ?k] no_k
  have rejected_k:
    "fst (set_TC_temperature ?k (PInt 1251)) = Inr (PBool False)
     \<and> writes (traffic (snd (set_TC_temperature ?k (PInt 1251)))) = writes (traffic ?k)"
    by blast
  from thermocouple_validation [where temperature = "PInt 1250" and self = ?j] no_j
  have rejected_j:
    "fst (set_TC_temperature ?j (PInt 1250)) = Inr (PBool False)
     \<and> writes (traffic (snd (set_TC_temperature ?j (PInt 1250)))) = writes (traffic ?j)"
    by blast
  from yes no_k no_j accepted rejected_k rejected_j show ?thesis
    by (simp add: connected_to_simps)
qed

subsection \<open>Order of the commands of \<^verbatim>\<open>set_ac_power\<close>\<close>

text \<open>
  Claim C9. Whenever \<^verbatim>\<open>set_ac_power\<close> returns \<^verbatim>\<open>True\<close>, the commands it handed to the
  instrument are, in this order: output disable, function select, range select, magnitude,
  phase unit, phase, frequency.
\<close>

theorem set_ac_power_order:
  assumes "fst (set_ac_power self voltage current frequency phase) = Inr (PBool True)"
  shows "\<exists>v c f ph vr cr.
           py_float voltage = Inr v \<and> py_float current = Inr c
           \<and> py_float frequency = Inr f \<and> py_float phase = Inr ph
           \<and> volt_rang v = Some vr \<and> current_rang c = Some cr
           \<and> traffic (snd (set_ac_power self voltage current frequency phase))
               = traffic self @
                 [Write ''OUTP OFF'', Write ''func sin'',
                  Write (''pow:rang '' @ py_str vr @ '','' @ py_str cr),
                  Write (''pow '' @ float_repr v @ '','' @ float_repr c),
                  Write ''UNIT:PHAS DEG'',
                  Write (''pow:phase '' @ float_repr ph),
                  Write (''freq '' @ float_repr f)]"
  using assms
  by (auto simp: set_ac_power_def output_disable_def write_data_def py_and_def
      split: sum.splits option.splits if_splits)

text \<open>The call \<^verbatim>\<open>set_ac_power(230, 10, 50, 5)\<close> on an instrument that accepts every command.\<close>

theorem set_ac_power_order_witness:
  "fst (set_ac_power (connected_to []) (PInt 230) (PInt 10) (PInt 50) (PInt 5))
     = Inr (PBool True)
   \<and> (\<exists>v c f ph vr cr.
         py_float (PInt 230) = Inr v \<and> py_float (PInt 10) = Inr c
         \<and> py_float (PInt 50) = Inr f \<and> py_float (PInt 5) = Inr ph
         \<and> volt_rang v = Some vr \<and> current_rang c = Some cr
         \<and> traffic (snd (set_ac_power (connected_to []) (PInt 230) (PInt 10) (PInt 50) (PInt 5)))
             = traffic (connected_to []) @
               [Write ''OUTP OFF'', Write ''func sin'',
                Write (''pow:rang '' @ py_str vr @ '','' @ py_str cr),
                Write (''pow '' @ float_repr v @ '','' @ float_repr c),
                Write ''UNIT:PHAS DEG'',
                Write (''pow:phase '' @ float_repr ph),
                Write (''freq '' @ float_repr f)])
   \<and> traffic (snd (set_ac_power (connected_to []) (PInt 230) (PInt 10) (PInt 50) (PInt 5)))
       = [Write ''OUTP OFF'', Write ''func sin'', Write ''pow:rang 1000,20'',
          Write ''pow 230.0,10.0'', Write ''UNIT:PHAS DEG'', Write ''pow:phase 5.0'',
          Write ''freq 50.0'']"
proof -
  have ok: "fst (set_ac_power (connected_to []) (PInt 230) (PInt 10) (PInt 50) (PInt 5))
              = Inr (PBool True)"
    by code_simp
  have sent: "traffic (snd (set_ac_power (connected_to []) (PInt 230) (PInt 10) (PInt 50)
                (PInt 5)))
              = [Write ''OUTP OFF'', Write ''func sin'', Write ''pow:rang 1000,20'',
                 Write ''pow 230.0,10.0'', Write ''UNIT:PHAS DEG'', Write ''pow:phase 5.0'',
                 Write ''freq 50.0'']"
    by code_simp
  from set_ac_power_order [OF ok] ok sent show ?thesis
    by blast
qed

subsection \<open>What \<^verbatim>\<open>get_output_status\<close> returns\<close>

text \<open>
  \<^verbatim>\<open>get_output_status\<close> hands \<^verbatim>\<open>OUTP?\<close> to \<^verbatim>\<open>__write_data\<close>: the text is written, the answer of
  the instrument is never read, and the result is the boolean of the write.
\<close>

lemma get_output_status_is_write_status:
  "fst (get_output_status self)
     = Inr (PBool (instrument_connected self \<and> accept (inst self) (traffic self) ''OUTP?''))"
  by (simp add: get_output_status_def write_data_def)

text \<open>
  Claim C7. The claim is that \<^verbatim>\<open>get_output_status\<close> returns the reply of the instrument to
  \<^verbatim>\<open>OUTP?\<close>. On an instrument that would answer \<^verbatim>\<open>1\<close>, the method returns \<^verbatim>\<open>True\<close>, and the
  only traffic is a write of \<^verbatim>\<open>OUTP?\<close>, not a query; the sibling getters use \<^verbatim>\<open>__get_data\<close>, as
  \<^verbatim>\<open>get_info\<close> does here, which returns the reply.
\<close>

theorem get_output_status_not_the_reply:
  "fst (get_output_status (connected_to [(''OUTP?'', ''1''), (''*IDN?'', ''TE5025'')]))
     = Inr (PBool True)
   \<and> traffic (snd (get_output_status (connected_to [(''OUTP?'', ''1''), (''*IDN?'', ''TE5025'')])))
       = [Write ''OUTP?'']
   \<and> fst (get_info (connected_to [(''OUTP?'', ''1''), (''*IDN?'', ''TE5025'')]))
       = Inr (PStr ''TE5025'')"
  by code_simp

subsection \<open>Exceptions that leave the driver\<close>

text \<open>
  The four power getters call \<^verbatim>\<open>.upper()\<close> on what \<^verbatim>\<open>__get_data\<close> returns. When the driver is
  not connected, or the query raises, that is \<^verbatim>\<open>None\<close>, and the \<^verbatim>\<open>AttributeError\<close> is caught
  nowhere.
\<close>

lemma power_getters_raise_without_reply:
  assumes "reported self ''func?'' = PNone"
  shows "fst (get_ac_power self unit) = Inl AttributeError"
    and "fst (get_ac_power_parameters self) = Inl AttributeError"
    and "fst (get_dc_power self unit) = Inl AttributeError"
    and "fst (get_dc_power_parameters self) = Inl AttributeError"
  using assms
  by (simp_all add: get_ac_power_def get_ac_power_parameters_def get_dc_power_def
      get_dc_power_parameters_def get_data_reported)

lemma reported_after_close: "reported (snd (close_connection self)) q = PNone"
  by (simp add: close_connection_def reported_def)

text \<open>
  Claim C6. The claim is that no operation lets an exception reach the caller, that every
  setter returns a boolean, and that operations after \<^verbatim>\<open>close_connection\<close> fail cleanly.
  \<^verbatim>\<open>get_ac_power\<close> called after \<^verbatim>\<open>close_connection\<close> raises \<^verbatim>\<open>AttributeError\<close>, and
  \<^verbatim>\<open>set_acv_frequency(0)\<close> returns \<^verbatim>\<open>None\<close>.
\<close>

theorem get_ac_power_after_close_raises:
  "fst (get_ac_power (snd (close_connection (connected_to [(''func?'', ''SIN'')])))
         (PStr ''WATT'')) = Inl AttributeError
   \<and> fst (set_acv_frequency (connected_to [(''func?'', ''SIN'')]) (PInt 0)) = Inr PNone"
  by code_simp

subsection \<open>Range selection of the power setters\<close>

lemma volt_rang_first: "volt_rang v = first_covering volt_breakpoints v"
  by (simp add: volt_rang_def first_covering_def volt_breakpoints_def)

lemma current_rang_first: "current_rang c = first_covering current_breakpoints c"
  by (simp add: current_rang_def first_covering_def current_breakpoints_def)

lemma volt_rang_None:
  "volt_rang v = None \<longleftrightarrow> (\<forall>b \<in> set volt_breakpoints. \<not> float_le v (fst b))"
  by (auto simp: volt_rang_def volt_breakpoints_def split: if_splits)

lemma current_rang_None:
  "current_rang c = None \<longleftrightarrow> (\<forall>b \<in> set current_breakpoints. \<not> float_le c (fst b))"
  by (auto simp: current_rang_def current_breakpoints_def split: if_splits)

lemma first_covering_smallest:
  assumes "sorted_wrt (\<lambda>a b. float_le (fst a) (fst b)) table"
    and "\<forall>a \<in> set table. float_le (fst a) (fst a)"
    and "first_covering table x = Some r"
  shows "\<exists>t. (t, r) \<in> set table \<and> float_le x t
             \<and> (\<forall>b \<in> set table. float_le x (fst b) \<longrightarrow> float_le t (fst b))"
  using assms
proof (induction table)
  case Nil
  then show ?case
    by (simp add: first_covering_def)
next
  case (Cons a table)
  show ?case
  proof (cases "float_le x (fst a)")
    case True
    with Cons.prems(3) have r: "r = snd a"
      by (simp add: first_covering_def)
    have "(fst a, r) \<in> set (a # table)"
      using r by simp
    moreover have "\<forall>b \<in> set (a # table). float_le x (fst b) \<longrightarrow> float_le (fst a) (fst b)"
      using Cons.prems(1,2) by auto
    ultimately show ?thesis
      using True by blast
  next
    case False
    with Cons.prems(3) have "first_covering table x = Some r"
      by (simp add: first_covering_def)
    with Cons.IH Cons.prems(1,2) obtain t where
      t: "(t, r) \<in> set table" "float_le x t"
         "\<forall>b \<in> set table. float_le x (fst b) \<longrightarrow> float_le t (fst b)"
      by auto
    with False show ?thesis
      by auto
  qed
qed

lemma first_covering_None:
  "first_covering table x = None \<longleftrightarrow> (\<forall>b \<in> set table. \<not> float_le x (fst b))"
  by (auto simp: first_covering_def find_None_iff)

lemma volt_breakpoints_sorted:
  "sorted_wrt (\<lambda>a b. float_le (fst a) (fst b)) volt_breakpoints"
  "\<forall>a \<in> set volt_breakpoints. float_le (fst a) (fst a)"
  by code_simp+

lemma current_breakpoints_sorted:
  "sorted_wrt (\<lambda>a b. float_le (fst a) (fst b)) current_breakpoints"
  "\<forall>a \<in> set current_breakpoints. float_le (fst a) (fst a)"
  by code_simp+

lemma set_dc_power_invalid:
  "\<not> valid_power voltage current \<Longrightarrow>
   set_dc_power self voltage current = (Inr (PBool False), snd (output_disable self))"
  by (auto simp: valid_power_def set_dc_power_def output_disable_def write_data_def
      split: sum.splits option.splits)

lemma set_dc_power_valid:
  "instrument_connected self \<Longrightarrow> py_float voltage = Inr v \<Longrightarrow> py_float current = Inr c \<Longrightarrow>
   volt_rang v = Some vr \<Longrightarrow> current_rang c = Some cr \<Longrightarrow>
   traffic (snd (set_dc_power self voltage current))
     = traffic self @
       [Write ''OUTP OFF'', Write ''func dc'',
        Write (''pow:rang '' @ py_str vr @ '','' @ py_str cr),
        Write (''pow '' @ float_repr v @ '','' @ float_repr c)]"
  by (simp add: set_dc_power_def output_disable_def write_data_def)

lemma set_ac_power_invalid:
  "\<not> valid_power voltage current \<or> \<not> coerces frequency \<or> \<not> coerces phase \<Longrightarrow>
   set_ac_power self voltage current frequency phase
     = (Inr (PBool False), snd (output_disable self))"
  by (auto simp: valid_power_def coerces_def set_ac_power_def output_disable_def write_data_def
      split: sum.splits option.splits)

lemma set_ac_power_valid:
  "instrument_connected self \<Longrightarrow> py_float voltage = Inr v \<Longrightarrow> py_float current = Inr c \<Longrightarrow>
   coerces frequency \<Longrightarrow> coerces phase \<Longrightarrow>
   volt_rang v = Some vr \<Longrightarrow> current_rang c = Some cr \<Longrightarrow>
   take 4 (drop (length (traffic self))
     (traffic (snd (set_ac_power self voltage current frequency phase))))
     = [Write ''OUTP OFF'', Write ''func sin'',
        Write (''pow:rang '' @ py_str vr @ '','' @ py_str cr),
        Write (''pow '' @ float_repr v @ '','' @ float_repr c)]"
  by (auto simp: set_ac_power_def output_disable_def write_data_def coerces_def
      split: sum.splits)

text \<open>
  The claim C3 reads the rule as: the smallest range that is at least \<open>1.1\<close> times the
  requested magnitude, so that a requested voltage of \<^verbatim>\<open>21\<close> selects the range \<^verbatim>\<open>200\<close>. The
  source compares the requested voltage itself with the breakpoints: \<^verbatim>\<open>21 <= 22\<close> selects the
  range \<^verbatim>\<open>20\<close>, and \<^verbatim>\<open>set_dc_power(21, 1)\<close> sends \<^verbatim>\<open>pow:rang 20,2\<close>.
\<close>

theorem breakpoint_21_counterexample:
  "py_float (PInt 21) = Inr (Fin False 5910974510923776 (- 48))
   \<and> volt_rang (Fin False 5910974510923776 (- 48)) = Some (PInt 20)
   \<and> traffic (snd (set_dc_power (connected_to []) (PInt 21) (PInt 1)))
       = [Write ''OUTP OFF'', Write ''func dc'', Write ''pow:rang 20,2'',
          Write ''pow 21.0,1.0'']
   \<and> Write ''pow:rang 200,2''
       \<notin> set (traffic (snd (set_dc_power (connected_to []) (PInt 21) (PInt 1))))"
  by code_simp

text \<open>
  Claim C3, amended. \<^verbatim>\<open>set_ac_power\<close> and \<^verbatim>\<open>set_dc_power\<close> select the range of the smallest
  breakpoint that is at least the requested magnitude, the breakpoints being \<open>1.1\<close> times the
  range (\<^verbatim>\<open>0.022\<close>, \<^verbatim>\<open>0.22\<close>, \<^verbatim>\<open>2.2\<close>, \<^verbatim>\<open>22\<close>, \<^verbatim>\<open>220\<close>) and \<^verbatim>\<open>1050\<close> for the range \<^verbatim>\<open>1000\<close>, and
  \<^verbatim>\<open>2.2\<close>, \<^verbatim>\<open>22\<close> for the current; no range is selected exactly when the magnitude is above
  every breakpoint. The selected pair is sent as \<^verbatim>\<open>pow:rang vr,cr\<close> after the output disable
  and the function select. When no range is selected (a voltage above \<^verbatim>\<open>1050\<close>, a current
  above \<^verbatim>\<open>22\<close>), or an argument does not coerce, the operation returns \<^verbatim>\<open>False\<close> having sent
  the output disable only.
\<close>

theorem power_range_selection:
  "(\<forall>r. volt_rang v = Some r \<longrightarrow>
        (\<exists>t. (t, r) \<in> set volt_breakpoints \<and> float_le v t
            \<and> (\<forall>b \<in> set volt_breakpoints. float_le v (fst b) \<longrightarrow> float_le t (fst b))))
   \<and> (volt_rang v = None \<longleftrightarrow> (\<forall>b \<in> set volt_breakpoints. \<not> float_le v (fst b)))
   \<and> (\<forall>r. current_rang c = Some r \<longrightarrow>
        (\<exists>t. (t, r) \<in> set current_breakpoints \<and> float_le c t
            \<and> (\<forall>b \<in> set current_breakpoints. float_le c (fst b) \<longrightarrow> float_le t (fst b))))
   \<and> (current_rang c = None \<longleftrightarrow> (\<forall>b \<in> set current_breakpoints. \<not> float_le c (fst b)))
   \<and> (instrument_connected self \<and> py_float voltage = Inr v \<and> py_float current = Inr c
        \<and> volt_rang v = Some vr \<and> current_rang c = Some cr \<longrightarrow>
        traffic (snd (set_dc_power self voltage current))
          = traffic self @
            [Write ''OUTP OFF'', Write ''func dc'',
             Write (''pow:rang '' @ py_str vr @ '','' @ py_str cr),
             Write (''pow '' @ float_repr v @ '','' @ float_repr c)]
        \<and> (coerces frequency \<and> coerces phase \<longrightarrow>
             take 4 (drop (length (traffic self))
               (traffic (snd (set_ac_power self voltage current frequency phase))))
               = [Write ''OUTP OFF'', Write ''func sin'',
                  Write (''pow:rang '' @ py_str vr @ '','' @ py_str cr),
                  Write (''pow '' @ float_repr v @ '','' @ float_repr c)]))
   \<and> (\<not> valid_power voltage current \<longrightarrow>
        set_dc_power self voltage current = (Inr (PBool False), snd (output_disable self))
        \<and> set_ac_power self voltage current frequency phase
            = (Inr (PBool False), snd (output_disable self)))"
proof -
  have "\<exists>t. (t, r) \<in> set volt_breakpoints \<and> float_le v t
          \<and> (\<forall>b \<in> set volt_breakpoints. float_le v (fst b) \<longrightarrow> float_le t (fst b))"
    if "volt_rang v = Some r" for r
    using first_covering_smallest [OF volt_breakpoints_sorted] that
    by (simp add: volt_rang_first)
  moreover have "\<exists>t. (t, r) \<in> set current_breakpoints \<and> float_le c t
          \<and> (\<forall>b \<in> set current_breakpoints. float_le c (fst b) \<longrightarrow> float_le t (fst b))"
    if "current_rang c = Some r" for r
    using first_covering_smallest [OF current_breakpoints_sorted] that
    by (simp add: current_rang_first)
  ultimately show ?thesis
    using volt_rang_None [of v] current_rang_None [of c]
      set_dc_power_valid [of self voltage v current c vr cr]
      set_ac_power_valid [of self voltage v current c frequency phase vr cr]
      set_dc_power_invalid [of voltage current self]
      set_ac_power_invalid [of voltage current frequency phase self]
    by blast
qed

text \<open>
  A requested voltage of \<^verbatim>\<open>21\<close> selects the range \<^verbatim>\<open>20\<close>; a voltage of \<^verbatim>\<open>1051\<close> and a current of
  \<^verbatim>\<open>23\<close> make the operation return \<^verbatim>\<open>False\<close>.
\<close>

theorem power_range_selection_witness:
  "volt_rang (Fin False 5910974510923776 (- 48)) = Some (PInt 20)
   \<and> (\<exists>t. (t, PInt 20) \<in> set volt_breakpoints
          \<and> float_le (Fin False 5910974510923776 (- 48)) t
          \<and> (\<forall>b \<in> set volt_breakpoints.
                float_le (Fin False 5910974510923776 (- 48)) (fst b) \<longrightarrow> float_le t (fst b)))
   \<and> traffic (snd (set_dc_power (connected_to []) (PInt 21) (PInt 1)))
       = [Write ''OUTP OFF'', Write ''func dc'', Write ''pow:rang 20,2'',
          Write ''pow 21.0,1.0'']
   \<and> \<not> valid_power (PInt 1051) (PInt 1)
   \<and> fst (set_dc_power (connected_to []) (PInt 1051) (PInt 1)) = Inr (PBool False)
   \<and> fst (set_ac_power (connected_to []) (PInt 1051) (PInt 1) (PInt 50) (PInt 0))
       = Inr (PBool False)
   \<and> \<not> valid_power (PInt 10) (PInt 23)
   \<and> fst (set_dc_power (connected_to []) (PInt 10) (PInt 23)) = Inr (PBool False)"
proof -
  let ?s = "connected_to []"
  let ?v = "Fin False 5910974510923776 (- 48)"
  let ?c = "Fin False 4503599627370496 (- 52)"
  have v: "py_float (PInt 21) = Inr ?v" and c: "py_float (PInt 1) = Inr ?c"
    by code_simp+
  have vr: "volt_rang ?v = Some (PInt 20)" and cr: "current_rang ?c = Some (PInt 2)"
    by code_simp+
  have strs: "py_str (PInt 20) = ''20''" "py_str (PInt 2) = ''2''"
    "float_repr ?v = ''21.0''" "float_repr ?c = ''1.0''"
    by code_simp+
  have bad_v: "\<not> valid_power (PInt 1051) (PInt 1)"
    and bad_c: "\<not> valid_power (PInt 10) (PInt 23)"
    by code_simp+
  note sel = power_range_selection [where v = ?v and c = ?c and self = ?s
      and voltage = "PInt 21" and current = "PInt 1" and vr = "PInt 20" and cr = "PInt 2"]
  from sel vr have smallest:
    "\<exists>t. (t, PInt 20) \<in> set volt_breakpoints \<and> float_le ?v t
       \<and> (\<forall>b \<in> set volt_breakpoints. float_le ?v (fst b) \<longrightarrow> float_le t (fst b))"
    by blast
  from sel v c vr cr have
    "traffic (snd (set_dc_power ?s (PInt 21) (PInt 1)))
       = traffic ?s @
         [Write ''OUTP OFF'', Write ''func dc'',
          Write (''pow:rang '' @ py_str (PInt 20) @ '','' @ py_str (PInt 2)),
          Write (''pow '' @ float_repr ?v @ '','' @ float_repr ?c)]"
    by (simp add: connected_to_simps)
  then have sent:
    "traffic (snd (set_dc_power ?s (PInt 21) (PInt 1)))
       = [Write ''OUTP OFF'', Write ''func dc'', Write ''pow:rang 20,2'',
          Write ''pow 21.0,1.0'']"
    unfolding strs by (simp add: connected_to_simps)
  from power_range_selection [where self = ?s and voltage = "PInt 1051" and current = "PInt 1"
      and frequency = "PInt 50" and phase = "PInt 0"] bad_v
  have fail_v:
    "fst (set_dc_power ?s (PInt 1051) (PInt 1)) = Inr (PBool False)"
    "fst (set_ac_power ?s (PInt 1051) (PInt 1) (PInt 50) (PInt 0)) = Inr (PBool False)"
    by simp_all
  from power_range_selection [where self = ?s and voltage = "PInt 10" and current = "PInt 23"]
    bad_c
  have fail_c: "fst (set_dc_power ?s (PInt 10) (PInt 23)) = Inr (PBool False)"
    by simp
  from vr smallest sent bad_v fail_v bad_c fail_c show ?thesis
    by blast
qed

subsection \<open>The two spellings of a range\<close>

lemma range_tokens_admitted:
  "list_all (\<lambda>t. py_in t voltage_ranges) voltage_ranges"
  "list_all (\<lambda>t. py_in t current_ranges) current_ranges"
  by code_simp+

lemma range_forms_cover:
  "map snd voltage_range_forms @ map fst voltage_range_forms = voltage_ranges"
  "map snd current_range_forms @ map fst current_range_forms = current_ranges"
  by (simp_all add: voltage_range_forms_def voltage_ranges_def current_range_forms_def
      current_ranges_def)

lemma voltage_form_admitted:
  assumes "(n, s) \<in> set voltage_range_forms"
  shows "py_in n voltage_ranges" and "py_in s voltage_ranges"
proof -
  from assms have "n \<in> set (map snd voltage_range_forms @ map fst voltage_range_forms)"
    and "s \<in> set (map snd voltage_range_forms @ map fst voltage_range_forms)"
    by force+
  then have "n \<in> set voltage_ranges" "s \<in> set voltage_ranges"
    by (simp_all only: range_forms_cover)
  with range_tokens_admitted(1) show "py_in n voltage_ranges" and "py_in s voltage_ranges"
    by (simp_all add: list_all_iff)
qed

lemma current_form_admitted:
  assumes "(n, s) \<in> set current_range_forms"
  shows "py_in n current_ranges" and "py_in s current_ranges"
proof -
  from assms have "n \<in> set (map snd current_range_forms @ map fst current_range_forms)"
    and "s \<in> set (map snd current_range_forms @ map fst current_range_forms)"
    by force+
  then have "n \<in> set current_ranges" "s \<in> set current_ranges"
    by (simp_all only: range_forms_cover)
  with range_tokens_admitted(2) show "py_in n current_ranges" and "py_in s current_ranges"
    by (simp_all add: list_all_iff)
qed

text \<open>
  The claim C4 says that the number and the text of one range produce the identical command.
  The command is the prefix followed by the argument as the caller wrote it: \<^verbatim>\<open>20\<close> gives
  \<^verbatim>\<open>VOLT:RANG 20\<close> and \<^verbatim>\<open>'20V'\<close> gives \<^verbatim>\<open>VOLT:RANG 20V\<close>.
\<close>

theorem range_forms_counterexample:
  "(PInt 20, PStr ''20V'') \<in> set voltage_range_forms
   \<and> traffic (snd (set_voltage_range (connected_to []) (PInt 20))) = [Write ''VOLT:RANG 20'']
   \<and> traffic (snd (set_voltage_range (connected_to []) (PStr ''20V'')))
       = [Write ''VOLT:RANG 20V'']
   \<and> traffic (snd (set_voltage_range (connected_to []) (PInt 20)))
       \<noteq> traffic (snd (set_voltage_range (connected_to []) (PStr ''20V'')))"
  by code_simp

text \<open>
  Claim C4, amended. For every range of \<^verbatim>\<open>set_voltage_range\<close> and \<^verbatim>\<open>set_current_range\<close>, the
  number and the unit-suffixed text both pass the validation, and each is sent as the prefix
  \<^verbatim>\<open>VOLT:RANG\<close> (\<^verbatim>\<open>CURR:RANG\<close>) followed by the text of the argument itself.
\<close>

theorem range_forms_accepted:
  "(\<forall>(n, s) \<in> set voltage_range_forms.
       set_voltage_range self n = write_data self (''VOLT:RANG '' @ py_str n)
       \<and> set_voltage_range self s = write_data self (''VOLT:RANG '' @ py_str s))
   \<and> (\<forall>(n, s) \<in> set current_range_forms.
       set_current_range self n = write_data self (''CURR:RANG '' @ py_str n)
       \<and> set_current_range self s = write_data self (''CURR:RANG '' @ py_str s))"
  using voltage_form_admitted current_form_admitted
  by (auto simp: set_voltage_range_def set_current_range_def)

theorem range_forms_accepted_witness:
  "(PInt 20, PStr ''20V'') \<in> set voltage_range_forms
   \<and> set_voltage_range (connected_to []) (PInt 20)
       = write_data (connected_to []) ''VOLT:RANG 20''
   \<and> set_voltage_range (connected_to []) (PStr ''20V'')
       = write_data (connected_to []) ''VOLT:RANG 20V''
   \<and> (PFloat (dec_float False 2 (- 4)), PStr ''200uA'') \<in> set current_range_forms
   \<and> set_current_range (connected_to []) (PFloat (dec_float False 2 (- 4)))
       = write_data (connected_to []) ''CURR:RANG 0.0002''
   \<and> set_current_range (connected_to []) (PStr ''200uA'')
       = write_data (connected_to []) ''CURR:RANG 200uA''"
proof -
  have v: "(PInt 20, PStr ''20V'') \<in> set voltage_range_forms"
    by (simp add: voltage_range_forms_def)
  have c: "(PFloat (dec_float False 2 (- 4)), PStr ''200uA'') \<in> set current_range_forms"
    by (simp add: current_range_forms_def)
  have strs: "py_str (PInt 20) = ''20''" "py_str (PStr ''20V'') = ''20V''"
    "py_str (PFloat (dec_float False 2 (- 4))) = ''0.0002''"
    "py_str (PStr ''200uA'') = ''200uA''"
    by code_simp+
  from range_forms_accepted [of "connected_to []"] v c
  have "set_voltage_range (connected_to []) (PInt 20)
          = write_data (connected_to []) (''VOLT:RANG '' @ py_str (PInt 20))"
    "set_voltage_range (connected_to []) (PStr ''20V'')
          = write_data (connected_to []) (''VOLT:RANG '' @ py_str (PStr ''20V''))"
    "set_current_range (connected_to []) (PFloat (dec_float False 2 (- 4)))
          = write_data (connected_to [])
              (''CURR:RANG '' @ py_str (PFloat (dec_float False 2 (- 4))))"
    "set_current_range (connected_to []) (PStr ''200uA'')
          = write_data (connected_to []) (''CURR:RANG '' @ py_str (PStr ''200uA''))"
    by blast+
  then show ?thesis
    unfolding strs using v c by simp
qed

subsection \<open>Validation after transmission in \<^verbatim>\<open>set_ac_power\<close>\<close>

text \<open>
  The setters of one quantity test their argument before they write: a rejected argument
  leaves the bus untouched.
\<close>

lemma set_TC_type_invalid:
  "\<not> valid_tc_type type \<Longrightarrow> set_TC_type self type = (Inr (PBool False), self)"
  by (auto simp: valid_tc_type_def set_TC_type_def split: sum.splits)

lemma set_RTD_temperature_invalid:
  "\<not> valid_rtd temperature unit \<Longrightarrow>
   set_RTD_temperature self temperature unit = (Inr (PBool False), self)"
  by (auto simp: valid_rtd_def set_RTD_temperature_def split: sum.splits)

lemma set_acv_frequency_invalid:
  "\<not> valid_acv_frequency frequency \<Longrightarrow> snd (set_acv_frequency self frequency) = self"
  by (auto simp: valid_acv_frequency_def set_acv_frequency_def split: sum.splits)

lemma set_oscilloscope_frequency_invalid:
  "\<not> valid_timing oscilloscope_frequencies frequency \<Longrightarrow>
   snd (set_oscilloscope_frequency self frequency) = self"
  by (auto simp: valid_timing_def set_oscilloscope_frequency_def split: sum.splits)

lemma set_oscilloscope_period_invalid:
  "\<not> valid_timing oscilloscope_periods period \<Longrightarrow>
   snd (set_oscilloscope_period self period) = self"
  by (auto simp: valid_timing_def set_oscilloscope_period_def split: sum.splits)

text \<open>
  \<^verbatim>\<open>set_ac_power\<close> itself coerces its four arguments and tests the voltage and the current
  before any command other than the output disable (\<open>set_ac_power_invalid\<close>). The phase
  and the frequency it tests later: the phase after the function, the ranges, the magnitudes
  and the phase unit have been written, the frequency after the phase has been written too.
  A phase or frequency out of range makes the call return \<^verbatim>\<open>False\<close> with those commands
  already sent.
\<close>

lemma set_ac_power_phase_out_of_range:
  assumes "instrument_connected self"
    and "py_float voltage = Inr v" and "py_float current = Inr c"
    and "py_float frequency = Inr f" and "py_float phase = Inr ph"
    and "volt_rang v = Some vr" and "current_rang c = Some cr"
    and "\<not> (float_le (exact_int (- 90)) ph \<and> float_le ph (exact_int 90))"
  shows "set_ac_power self voltage current frequency phase
           = (Inr (PBool False),
              self\<lparr>traffic := traffic self @
                [Write ''OUTP OFF'', Write ''func sin'',
                 Write (''pow:rang '' @ py_str vr @ '','' @ py_str cr),
                 Write (''pow '' @ float_repr v @ '','' @ float_repr c),
                 Write ''UNIT:PHAS DEG'']\<rparr>)"
  using assms
  by (auto simp: set_ac_power_def output_disable_def write_data_def)

lemma set_ac_power_frequency_out_of_range:
  assumes "instrument_connected self"
    and "py_float voltage = Inr v" and "py_float current = Inr c"
    and "py_float frequency = Inr f" and "py_float phase = Inr ph"
    and "volt_rang v = Some vr" and "current_rang c = Some cr"
    and "float_le (exact_int (- 90)) ph" and "float_le ph (exact_int 90)"
    and "\<not> (float_le (exact_int 45) f \<and> float_le f (exact_int 400))"
  shows "set_ac_power self voltage current frequency phase
           = (Inr (PBool False),
              self\<lparr>traffic := traffic self @
                [Write ''OUTP OFF'', Write ''func sin'',
                 Write (''pow:rang '' @ py_str vr @ '','' @ py_str cr),
                 Write (''pow '' @ float_repr v @ '','' @ float_repr c),
                 Write ''UNIT:PHAS DEG'',
                 Write (''pow:phase '' @ float_repr ph)]\<rparr>)"
  using assms
  by (auto simp: set_ac_power_def output_disable_def write_data_def)

text \<open>
  Claim C2. The claim is that a setter called with an input that fails validation returns a
  failure and sends no command, in particular \<^verbatim>\<open>set_ac_power\<close> with an out-of-range phase or
  frequency. \<^verbatim>\<open>set_ac_power(230, 10, 50, 91)\<close> returns \<^verbatim>\<open>False\<close> after it has written the
  function, the ranges, the magnitudes and the phase unit, and \<^verbatim>\<open>set_ac_power(230, 10, 500, 5)\<close>
  after it has written the phase as well; with the voltage out of range,
  \<^verbatim>\<open>set_ac_power(1051, 10, 50, 5)\<close> writes the output disable and nothing else.
\<close>

theorem set_ac_power_rejects_after_sending:
  "fst (set_ac_power (connected_to []) (PInt 230) (PInt 10) (PInt 50) (PInt 91))
     = Inr (PBool False)
   \<and> traffic (snd (set_ac_power (connected_to []) (PInt 230) (PInt 10) (PInt 50) (PInt 91)))
       = [Write ''OUTP OFF'', Write ''func sin'', Write ''pow:rang 1000,20'',
          Write ''pow 230.0,10.0'', Write ''UNIT:PHAS DEG'']
   \<and> fst (set_ac_power (connected_to []) (PInt 230) (PInt 10) (PInt 500) (PInt 5))
       = Inr (PBool False)
   \<and> traffic (snd (set_ac_power (connected_to []) (PInt 230) (PInt 10) (PInt 500) (PInt 5)))
       = [Write ''OUTP OFF'', Write ''func sin'', Write ''pow:rang 1000,20'',
          Write ''pow 230.0,10.0'', Write ''UNIT:PHAS DEG'', Write ''pow:phase 5.0'']
   \<and> fst (set_ac_power (connected_to []) (PInt 1051) (PInt 10) (PInt 50) (PInt 5))
       = Inr (PBool False)
   \<and> traffic (snd (set_ac_power (connected_to []) (PInt 1051) (PInt 10) (PInt 50) (PInt 5)))
       = [Write ''OUTP OFF'']"
  by code_simp

end
